theory Spec2Isabelle
  imports Complex_Main "HOL-Library.AList"
begin

section \<open>JavaScript values\<close>

text \<open>
  The node handles \<open>IDataObject\<close> values: JSON-like data. A number is modelled as a
  mathematical integer or NaN (the timestamps, counts and status codes of this code are
  integers, exact in a double up to \<open>2 ^ 53\<close>); a string as a list of 8-bit characters;
  an object as the list of its entries in enumeration order, with \<open>obj_set\<close> for
  assignment, so that a key occurs once in every object the code builds. Keys are
  ordinary property names: \<open>__proto__\<close>, whose assignment sets the prototype, is outside
  the model.
\<close>

datatype jsnum = Num int | NaN

datatype jsval =
    JUndefined
  | JNull
  | JBool bool
  | JNum jsnum
  | JStr string
  | JArr "jsval list"
  | JObj "(string \<times> jsval) list"

type_synonym IDataObject = "(string \<times> jsval) list"

text \<open>\<open>obj[key] = v\<close>: an existing key keeps its place, a new key goes last.\<close>

definition obj_set :: "IDataObject \<Rightarrow> string \<Rightarrow> jsval \<Rightarrow> IDataObject" where
  "obj_set obj key v = AList.update key v obj"

text \<open>\<open>obj[key]\<close> (or \<open>obj.key\<close>) for a key that is not inherited: undefined when missing.\<close>

definition obj_get :: "IDataObject \<Rightarrow> string \<Rightarrow> jsval" where
  "obj_get obj key = (case map_of obj key of None \<Rightarrow> JUndefined | Some v \<Rightarrow> v)"

text \<open>\<open>{...target, ...source}\<close>: the entries of \<open>source\<close> assigned in order.\<close>

definition spread :: "IDataObject \<Rightarrow> IDataObject \<Rightarrow> IDataObject" where
  "spread target source = foldl (\<lambda>acc (k, v). obj_set acc k v) target source"

text \<open>JavaScript truthiness: what \<open>if (v)\<close>, \<open>!v\<close> and \<open>v || w\<close> test.\<close>

fun truthy :: "jsval \<Rightarrow> bool" where
  "truthy JUndefined = False"
| "truthy JNull = False"
| "truthy (JBool b) = b"
| "truthy (JNum (Num n)) = (n \<noteq> 0)"
| "truthy (JNum NaN) = False"
| "truthy (JStr s) = (s \<noteq> [])"
| "truthy (JArr xs) = True"
| "truthy (JObj obj) = True"

section \<open>utils: timestamps\<close>

text \<open>
  \<open>parseInt(s, 10)\<close>: leading white space is skipped, one sign is read, then the longest
  run of decimal digits; no digit gives NaN.
\<close>

definition is_space :: "char \<Rightarrow> bool" where
  "is_space c = (c \<in> {CHR 0x09, CHR 0x0A, CHR 0x0B, CHR 0x0C, CHR 0x0D, CHR 0x20, CHR 0xA0})"

definition is_digit :: "char \<Rightarrow> bool" where
  "is_digit c = (48 \<le> (of_char c :: nat) \<and> (of_char c :: nat) \<le> 57)"

definition digit_val :: "char \<Rightarrow> int" where
  "digit_val c = int (of_char c) - 48"

definition digits_val :: "string \<Rightarrow> int" where
  "digits_val ds = foldl (\<lambda>acc c. 10 * acc + digit_val c) 0 ds"

definition parseInt10 :: "string \<Rightarrow> jsnum" where
  "parseInt10 s =
     (let t = dropWhile is_space s;
          (sign, u) = (case t of
                         c # r \<Rightarrow> if c = CHR ''-'' then (-1, r)
                                  else if c = CHR ''+'' then (1, r) else (1, t)
                       | [] \<Rightarrow> (1, t));
          ds = takeWhile is_digit u
      in if ds = [] then NaN else Num (sign * digits_val ds))"

text \<open>The parameter type \<open>number | string\<close> of \<open>toMilliseconds\<close> and \<open>toSeconds\<close>.\<close>

datatype timestamp = TsNumber jsnum | TsString string

definition ts_number :: "timestamp \<Rightarrow> jsnum" where
  "ts_number timestamp =
     (case timestamp of TsString s \<Rightarrow> parseInt10 s | TsNumber n \<Rightarrow> n)"

text \<open>A comparison with NaN is false, so NaN is returned as it is.\<close>

definition toMilliseconds :: "timestamp \<Rightarrow> jsnum" where
  "toMilliseconds timestamp =
     (case ts_number timestamp of
        Num ts \<Rightarrow> if ts < 10000000000 then Num (ts * 1000) else Num ts
      | NaN \<Rightarrow> NaN)"

definition toSeconds :: "timestamp \<Rightarrow> jsnum" where
  "toSeconds timestamp =
     (case ts_number timestamp of
        Num ts \<Rightarrow> if ts > 10000000000 then Num (ts div 1000) else Num ts
      | NaN \<Rightarrow> NaN)"

section \<open>utils: cleanObject\<close>

text \<open>
  The loop of \<open>cleanObject\<close> over \<open>Object.entries(obj)\<close>, with the object \<open>cleaned\<close>
  built so far. A value that is an object and not an array is cleaned itself and kept
  only when the result has a key.
\<close>

function cleanEntries :: "IDataObject \<Rightarrow> IDataObject \<Rightarrow> IDataObject" where
  "cleanEntries cleaned [] = cleaned"
| "cleanEntries cleaned ((key, v) # rest) =
     (if v \<noteq> JUndefined \<and> v \<noteq> JNull \<and> v \<noteq> JStr [] then
        (case v of
           JObj nested \<Rightarrow>
             (let cleanedNested = cleanEntries [] nested
              in if length cleanedNested > 0
                 then cleanEntries (obj_set cleaned key (JObj cleanedNested)) rest
                 else cleanEntries cleaned rest)
         | _ \<Rightarrow> cleanEntries (obj_set cleaned key v) rest)
      else cleanEntries cleaned rest)"
  by pat_completeness auto
termination
  by (relation "measure (\<lambda>(cleaned, entries). size_list (size_prod (\<lambda>_. 0) size) entries)")
    auto

definition cleanObject :: "IDataObject \<Rightarrow> IDataObject" where
  "cleanObject obj = cleanEntries [] obj"

section \<open>utils: splitIntoBatches\<close>

text \<open>\<open>Array.prototype.slice(start, end)\<close>: a negative index counts from the end.\<close>

definition slice :: "'a list \<Rightarrow> int \<Rightarrow> int \<Rightarrow> 'a list" where
  "slice xs start end =
     (let len = int (length xs);
          k = (if start < 0 then max (len + start) 0 else min start len);
          fin = (if end < 0 then max (len + end) 0 else min end len)
      in take (nat (fin - k)) (drop (nat k) xs))"

text \<open>
  The loop \<open>for (let i = 0; i < items.length; i += batchSize)\<close>. It does not end for a
  batch size that is not positive, so it is a partial function: None is "no return".
\<close>

partial_function (option) splitLoop ::
  "'a list \<Rightarrow> int \<Rightarrow> int \<Rightarrow> 'a list list \<Rightarrow> 'a list list option" where
  "splitLoop items batchSize i batches =
     (if i < int (length items)
      then splitLoop items batchSize (i + batchSize)
             (batches @ [slice items i (i + batchSize)])
      else Some batches)"

declare splitLoop.simps [code]

definition splitIntoBatches :: "'a list \<Rightarrow> int \<Rightarrow> 'a list list option" where
  "splitIntoBatches items batchSize = splitLoop items batchSize 0 []"

section \<open>utils: buildEventProperties\<close>

text \<open>The parameter \<open>options: { time?: number; ip?: string }\<close>; None is a missing field.\<close>

record event_options =
  time :: "jsnum option"
  ip :: "string option"

text \<open>
  \<open>now\<close> is the reading of \<open>Date.now()\<close>, in milliseconds. The object literal lists
  \<open>token\<close>, \<open>distinct_id\<close> and \<open>$insert_id\<close> and then spreads the additional properties
  over them; \<open>time\<close> and \<open>ip\<close> are assigned afterwards.
\<close>

definition buildEventProperties ::
  "string \<Rightarrow> string \<Rightarrow> string \<Rightarrow> IDataObject \<Rightarrow> event_options \<Rightarrow> int \<Rightarrow> IDataObject" where
  "buildEventProperties token distinctId insertId additionalProperties options now =
     (let properties =
            spread [(''token'', JStr token), (''distinct_id'', JStr distinctId),
                    (''$insert_id'', JStr insertId)] additionalProperties;
          properties =
            (case time options of
               Some t \<Rightarrow>
                 if truthy (JNum t)
                 then obj_set properties ''time'' (JNum (toSeconds (TsNumber t)))
                 else obj_set properties ''time'' (JNum (Num (now div 1000)))
             | None \<Rightarrow> obj_set properties ''time'' (JNum (Num (now div 1000))));
          properties =
            (case ip options of
               Some a \<Rightarrow> if truthy (JStr a) then obj_set properties ''ip'' (JStr a) else properties
             | None \<Rightarrow> properties)
      in properties)"

section \<open>transport: generateInsertId\<close>

text \<open>The decimal rendering of an integer, as a template literal writes a number.\<close>

definition digit_char :: "nat \<Rightarrow> char" where
  "digit_char d = char_of (48 + d)"

fun show_nat :: "nat \<Rightarrow> string" where
  "show_nat n = (if n < 10 then [digit_char n] else show_nat (n div 10) @ [digit_char (n mod 10)])"

declare show_nat.simps [simp del]

definition show_int :: "int \<Rightarrow> string" where
  "show_int i = (if i < 0 then CHR ''-'' # show_nat (nat (- i)) else show_nat (nat i))"

text \<open>\<open>String.prototype.substring(start, end)\<close> for indices that are not negative.\<close>

definition substring :: "string \<Rightarrow> nat \<Rightarrow> nat \<Rightarrow> string" where
  "substring s start end =
     (let a = min start (length s); b = min end (length s)
      in take (max a b - min a b) (drop (min a b) s))"

text \<open>\<open>String.prototype.split(sep)\<close> for a separator of one character.\<close>

fun split_on :: "char \<Rightarrow> string \<Rightarrow> string list" where
  "split_on sep [] = [[]]"
| "split_on sep (c # cs) =
     (if c = sep then [] # split_on sep cs
      else (case split_on sep cs of
              seg # segs \<Rightarrow> (c # seg) # segs
            | [] \<Rightarrow> [[c]]))"

text \<open>
  \<open>timestamp\<close> is the reading of \<open>Date.now()\<close> and \<open>random36\<close> the string
  \<open>Math.random().toString(36)\<close>, of the form \<open>0.\<close> followed by digits in base 36.
\<close>

definition generateInsertId :: "string \<Rightarrow> int \<Rightarrow> string \<Rightarrow> string" where
  "generateInsertId distinctId timestamp random36 =
     (let random = substring random36 2 11
      in distinctId @ ''_'' @ show_int timestamp @ ''_'' @ random)"

section \<open>constants\<close>

definition MIXPANEL_INGESTION_URLS :: "(string \<times> string) list" where
  "MIXPANEL_INGESTION_URLS =
     [(''us'', ''https://api.mixpanel.com''),
      (''eu'', ''https://api-eu.mixpanel.com''),
      (''in'', ''https://api-in.mixpanel.com'')]"

definition MIXPANEL_QUERY_URLS :: "(string \<times> string) list" where
  "MIXPANEL_QUERY_URLS =
     [(''us'', ''https://mixpanel.com/api''),
      (''eu'', ''https://eu.mixpanel.com/api''),
      (''in'', ''https://in.mixpanel.com/api'')]"

definition MIXPANEL_EXPORT_URLS :: "(string \<times> string) list" where
  "MIXPANEL_EXPORT_URLS =
     [(''us'', ''https://data.mixpanel.com/api/2.0/export''),
      (''eu'', ''https://data-eu.mixpanel.com/api/2.0/export''),
      (''in'', ''https://data-in.mixpanel.com/api/2.0/export'')]"

definition ENDPOINTS_IMPORT :: string where
  "ENDPOINTS_IMPORT = ''/import''"

definition RATE_LIMITS_BATCH_SIZE :: int where
  "RATE_LIMITS_BATCH_SIZE = 2000"

definition DEFAULTS_RETRY_ATTEMPTS :: int where
  "DEFAULTS_RETRY_ATTEMPTS = 3"

definition DEFAULTS_RETRY_DELAY_MS :: int where
  "DEFAULTS_RETRY_DELAY_MS = 1000"

definition DEFAULTS_REQUEST_TIMEOUT_MS :: int where
  "DEFAULTS_REQUEST_TIMEOUT_MS = 30000"

section \<open>transport: errors, base URLs, the host\<close>

text \<open>
  What the code throws or catches. \<open>Thrown name message statusCode\<close> is a value thrown by
  code outside this repository (the host's request helper, a batch processor), with the
  three properties this code reads. \<open>IllTyped\<close> is no JavaScript error: the casts of
  TypeScript (\<open>as string\<close>, \<open>as number\<close>, \<open>as IDataObject\<close>) are unchecked, the model follows
  the declared types, and where a cast value of another type reaches code that depends on
  its type the model stops with \<open>IllTyped\<close>.
\<close>

datatype error =
    Error string
  | TypeError string
  | NodeOperationError string
  | NodeApiError string string
  | Thrown string string "int option"
  | IllTyped string

fun err_message :: "error \<Rightarrow> string" where
  "err_message (Error msg) = msg"
| "err_message (TypeError msg) = msg"
| "err_message (NodeOperationError msg) = msg"
| "err_message (NodeApiError msg name) = msg"
| "err_message (Thrown name msg status) = msg"
| "err_message (IllTyped what) = what"

fun err_name :: "error \<Rightarrow> string" where
  "err_name (Error msg) = ''Error''"
| "err_name (TypeError msg) = ''TypeError''"
| "err_name (NodeOperationError msg) = ''NodeOperationError''"
| "err_name (NodeApiError msg name) = ''NodeApiError''"
| "err_name (Thrown name msg status) = name"
| "err_name (IllTyped what) = ''IllTyped''"

text \<open>The property \<open>statusCode\<close> of a caught value; the error classes above have none.\<close>

fun statusCode :: "error \<Rightarrow> int option" where
  "statusCode (Thrown name msg status) = status"
| "statusCode _ = None"

text \<open>
  The handler of every request function:
  \<open>throw new NodeApiError(this.getNode(), { message: err.message, name: err.name || 'Error' })\<close>.
\<close>

definition toNodeApiError :: "error \<Rightarrow> error" where
  "toNodeApiError err =
     NodeApiError (err_message err) (if err_name err \<noteq> [] then err_name err else ''Error'')"

datatype ApiType = Ingestion | Query | Export

text \<open>The table is read at its own keys (the three regions).\<close>

definition getBaseUrl :: "string \<Rightarrow> ApiType \<Rightarrow> error + string" where
  "getBaseUrl region apiType =
     (let urls = (case apiType of
                    Ingestion \<Rightarrow> MIXPANEL_INGESTION_URLS
                  | Query \<Rightarrow> MIXPANEL_QUERY_URLS
                  | Export \<Rightarrow> MIXPANEL_EXPORT_URLS)
      in case map_of urls region of
           Some url \<Rightarrow> if url \<noteq> [] then Inr url else Inl (Error (''Invalid region: '' @ region))
         | None \<Rightarrow> Inl (Error (''Invalid region: '' @ region)))"

record MixpanelCredentials =
  projectToken :: string
  projectSecret :: string
  serviceAccountUsername :: "string option"
  serviceAccountSecret :: "string option"
  region :: string

text \<open>\<open>IRequestOptions\<close>, with the fields this code sets; None is a field left out.\<close>

record IRequestOptions =
  req_method :: string
  req_uri :: string
  req_headers :: "(string \<times> string) list"
  req_body :: "jsval option"
  req_qs :: "IDataObject option"
  req_json :: "bool option"
  req_timeout :: int

text \<open>
  What this code calls and does not define: the execution context \<open>this\<close> of n8n and the
  JavaScript globals. Each is a parameter. \<open>'w\<close> is the state of everything outside (the
  service, the clock, the random generator); a call that depends on it or changes it
  takes it and returns it. \<open>JSON.parse\<close> returns the value or the error it throws;
  \<open>toBase64 s\<close> is \<open>Buffer.from(s).toString('base64')\<close>.
\<close>

record 'w host =
  getCredentials :: "error + MixpanelCredentials"
  helpers_request :: "IRequestOptions \<Rightarrow> 'w \<Rightarrow> (error + jsval) \<times> 'w"
  Date_now :: "'w \<Rightarrow> int \<times> 'w"
  Math_random_toString36 :: "'w \<Rightarrow> string \<times> 'w"
  JSON_parse :: "string \<Rightarrow> error + jsval"
  toBase64 :: "string \<Rightarrow> string"

text \<open>
  The state of a run: the requests handed to \<open>this.helpers.request\<close> so far, oldest
  first, and the outside.
\<close>

record 'w world =
  sent :: "IRequestOptions list"
  outside :: "'w"

definition request :: "'w host \<Rightarrow> IRequestOptions \<Rightarrow> 'w world \<Rightarrow> (error + jsval) \<times> 'w world" where
  "request h options w =
     (let (response, out) = helpers_request h options (outside w)
      in (response, w\<lparr>sent := sent w @ [options], outside := out\<rparr>))"

text \<open>\<open>typeof v === 'object'\<close>: also true of null and of an array.\<close>

fun typeof_object :: "jsval \<Rightarrow> bool" where
  "typeof_object JNull = True"
| "typeof_object (JArr xs) = True"
| "typeof_object (JObj obj) = True"
| "typeof_object _ = False"

section \<open>transport: mixpanelIngestionApiRequest\<close>

text \<open>
  What the \<open>try\<close> block does with the response; the error it throws is caught by the
  handler of the same block.
\<close>

definition ingestionResponse :: "jsval \<Rightarrow> error + jsval" where
  "ingestionResponse response =
     (if response = JNum (Num 1) \<or> response = JStr ''1''
      then Inr (JObj [(''success'', JBool True)])
      else if typeof_object response then Inr response
      else if response = JNum (Num 0) \<or> response = JStr ''0''
      then Inl (NodeOperationError
        ''Mixpanel API returned failure status. Check your data format and credentials.'')
      else Inr (JObj [(''success'', JBool True), (''response'', response)]))"

text \<open>
  The request options of \<open>mixpanelIngestionApiRequest\<close>. Its last parameter \<open>_qs\<close> is
  not used and is left out.
\<close>

definition ingestionOptions :: "string \<Rightarrow> string \<Rightarrow> string \<Rightarrow> jsval \<Rightarrow> IRequestOptions" where
  "ingestionOptions baseUrl method endpoint body =
     \<lparr>req_method = method, req_uri = baseUrl @ endpoint,
      req_headers = [(''Content-Type'', ''application/json''), (''Accept'', ''text/plain'')],
      req_body = Some body, req_qs = None, req_json = Some True,
      req_timeout = DEFAULTS_REQUEST_TIMEOUT_MS\<rparr>"

definition mixpanelIngestionApiRequest ::
  "'w host \<Rightarrow> string \<Rightarrow> string \<Rightarrow> jsval \<Rightarrow> 'w world \<Rightarrow> (error + jsval) \<times> 'w world" where
  "mixpanelIngestionApiRequest h method endpoint body w =
     (case getCredentials h of
        Inl e \<Rightarrow> (Inl e, w)
      | Inr credentials \<Rightarrow>
     (case getBaseUrl (region credentials) Ingestion of
        Inl e \<Rightarrow> (Inl e, w)
      | Inr baseUrl \<Rightarrow>
          (let options = ingestionOptions baseUrl method endpoint body;
               (answer, w') = request h options w
           in case answer of
                Inl err \<Rightarrow> (Inl (toNodeApiError err), w')
              | Inr response \<Rightarrow>
                  (case ingestionResponse response of
                     Inl err \<Rightarrow> (Inl (toNodeApiError err), w')
                   | Inr result \<Rightarrow> (Inr result, w')))))"

section \<open>transport: mixpanelExportApiRequest\<close>

text \<open>\<open>s.replace(pattern, replacement)\<close> with a string pattern: the first occurrence only.\<close>

fun replace_first :: "string \<Rightarrow> string \<Rightarrow> string \<Rightarrow> string" where
  "replace_first pat rep [] = (if pat = [] then rep else [])"
| "replace_first pat rep (c # cs) =
     (if take (length pat) (c # cs) = pat then rep @ drop (length pat) (c # cs)
      else c # replace_first pat rep cs)"

definition trim :: "string \<Rightarrow> string" where
  "trim s = rev (dropWhile is_space (rev (dropWhile is_space s)))"

text \<open>\<open>lines.map((line) => JSON.parse(line))\<close>: the first line that fails to parse throws.\<close>

fun parseLines :: "(string \<Rightarrow> error + jsval) \<Rightarrow> string list \<Rightarrow> error + jsval list" where
  "parseLines parse [] = Inr []"
| "parseLines parse (line # rest) =
     (case parse line of
        Inl e \<Rightarrow> Inl e
      | Inr v \<Rightarrow> (case parseLines parse rest of Inl e \<Rightarrow> Inl e | Inr vs \<Rightarrow> Inr (v # vs)))"

text \<open>\<open>response.split('\n').filter((line) => line.trim())\<close>\<close>

definition exportLines :: "string \<Rightarrow> string list" where
  "exportLines response = filter (\<lambda>line. truthy (JStr (trim line))) (split_on CHR 0x0A response)"

definition exportResponse :: "(string \<Rightarrow> error + jsval) \<Rightarrow> jsval \<Rightarrow> error + jsval list" where
  "exportResponse parse response =
     (case response of
        JStr s \<Rightarrow> parseLines parse (exportLines s)
      | JArr xs \<Rightarrow> Inr xs
      | _ \<Rightarrow> Inr [response])"

text \<open>The request options of \<open>mixpanelExportApiRequest\<close>.\<close>

definition exportOptions ::
  "'w host \<Rightarrow> MixpanelCredentials \<Rightarrow> string \<Rightarrow> string \<Rightarrow> IDataObject \<Rightarrow> IRequestOptions" where
  "exportOptions h credentials baseUrl endpoint qs =
     (let authString = toBase64 h (projectSecret credentials @ '':'')
      in \<lparr>req_method = ''GET'',
          req_uri = (if endpoint = [] then baseUrl
                     else replace_first ''/export'' [] baseUrl @ endpoint),
          req_headers = [(''Authorization'', ''Basic '' @ authString),
                         (''Accept'', ''application/json'')],
          req_body = None, req_qs = Some qs, req_json = None,
          req_timeout = DEFAULTS_REQUEST_TIMEOUT_MS * 2\<rparr>)"

definition mixpanelExportApiRequest ::
  "'w host \<Rightarrow> string \<Rightarrow> IDataObject \<Rightarrow> 'w world \<Rightarrow> (error + jsval list) \<times> 'w world" where
  "mixpanelExportApiRequest h endpoint qs w =
     (case getCredentials h of
        Inl e \<Rightarrow> (Inl e, w)
      | Inr credentials \<Rightarrow>
     (case getBaseUrl (region credentials) Export of
        Inl e \<Rightarrow> (Inl e, w)
      | Inr baseUrl \<Rightarrow>
          (let options = exportOptions h credentials baseUrl endpoint qs;
               (answer, w') = request h options w
           in case answer of
                Inl err \<Rightarrow> (Inl (toNodeApiError err), w')
              | Inr response \<Rightarrow>
                  (case exportResponse (JSON_parse h) response of
                     Inl err \<Rightarrow> (Inl (toNodeApiError err), w')
                   | Inr records \<Rightarrow> (Inr records, w')))))"

section \<open>transport: mixpanelServiceAccountApiRequest\<close>

text \<open>
  An optional string field of the credentials: \<open>!field\<close> holds when it is missing or
  empty, and a template literal writes a missing one as \<open>undefined\<close>.
\<close>

definition falsy_field :: "string option \<Rightarrow> bool" where
  "falsy_field field = (case field of None \<Rightarrow> True | Some s \<Rightarrow> s = [])"

definition template_field :: "string option \<Rightarrow> string" where
  "template_field field = (case field of None \<Rightarrow> ''undefined'' | Some s \<Rightarrow> s)"

text \<open>The request options of \<open>mixpanelServiceAccountApiRequest\<close>, the body included.\<close>

definition serviceAccountOptions ::
  "'w host \<Rightarrow> MixpanelCredentials \<Rightarrow> string \<Rightarrow> string \<Rightarrow> string \<Rightarrow> IDataObject \<Rightarrow> IDataObject
     \<Rightarrow> IRequestOptions" where
  "serviceAccountOptions h credentials baseUrl method endpoint body qs =
     (let authString = toBase64 h
            (template_field (serviceAccountUsername credentials) @ '':'' @
             template_field (serviceAccountSecret credentials));
          options = \<lparr>req_method = method, req_uri = baseUrl @ endpoint,
            req_headers = [(''Authorization'', ''Basic '' @ authString),
                           (''Accept'', ''application/json'')],
            req_body = None, req_qs = Some qs, req_json = Some True,
            req_timeout = DEFAULTS_REQUEST_TIMEOUT_MS\<rparr>
      in if method \<noteq> ''GET'' \<and> length body > 0
         then options\<lparr>req_body := Some (JObj body),
                req_headers := AList.update ''Content-Type'' ''application/json''
                                 (req_headers options)\<rparr>
         else options)"

definition mixpanelServiceAccountApiRequest ::
  "'w host \<Rightarrow> string \<Rightarrow> string \<Rightarrow> IDataObject \<Rightarrow> IDataObject \<Rightarrow> 'w world
     \<Rightarrow> (error + jsval) \<times> 'w world" where
  "mixpanelServiceAccountApiRequest h method endpoint body qs w =
     (case getCredentials h of
        Inl e \<Rightarrow> (Inl e, w)
      | Inr credentials \<Rightarrow>
          if falsy_field (serviceAccountUsername credentials)
             \<or> falsy_field (serviceAccountSecret credentials)
          then (Inl (NodeOperationError
            ''Service account credentials are required for this operation. Please configure them in your Mixpanel credentials.''), w)
          else
     (case getBaseUrl (region credentials) Query of
        Inl e \<Rightarrow> (Inl e, w)
      | Inr baseUrl \<Rightarrow>
          (let options = serviceAccountOptions h credentials baseUrl method endpoint body qs;
               (answer, w') = request h options w
           in case answer of
                Inl err \<Rightarrow> (Inl (toNodeApiError err), w')
              | Inr response \<Rightarrow> (Inr response, w'))))"

section \<open>transport: processBatchWithRetry\<close>

text \<open>
  The processor is a callback with effects of its own: it takes a batch and a state
  \<open>'s\<close> and returns its result, or the value it throws, and the new state. The run
  records each call of the processor and each \<open>setTimeout\<close> wait, in order. The
  parameter \<open>retryAttempts\<close> is \<open>DEFAULTS_RETRY_ATTEMPTS\<close> when the caller leaves it out.
\<close>

type_synonym ('a, 's) processor = "'a list \<Rightarrow> 's \<Rightarrow> (error + jsval) \<times> 's"

datatype 'a retry_event = Invoked "'a list" | Slept int

text \<open>
  How the loop over the attempts of one batch ends: \<open>break\<close> after a result, a
  \<open>throw\<close> from the handler, or its condition failing with \<open>lastError\<close> as it stands.
\<close>

datatype attempts_end = Succeeded jsval | Rethrown error | Exhausted "error option"

function retryLoop ::
  "('a, 's) processor \<Rightarrow> int \<Rightarrow> 'a list \<Rightarrow> int \<Rightarrow> error option \<Rightarrow> 's \<Rightarrow> 'a retry_event list
     \<Rightarrow> attempts_end \<times> 's \<times> 'a retry_event list" where
  "retryLoop processor retryAttempts batch attempt lastError s trace =
     (if attempt < retryAttempts then
        (case processor batch s of
           (Inr result, s') \<Rightarrow> (Succeeded result, s', trace @ [Invoked batch])
         | (Inl err, s') \<Rightarrow>
             if statusCode err = Some 429
             then retryLoop processor retryAttempts batch (attempt + 1) (Some err) s'
                    (trace @ [Invoked batch, Slept (DEFAULTS_RETRY_DELAY_MS * 2 ^ nat attempt)])
             else (Rethrown err, s', trace @ [Invoked batch]))
      else (Exhausted lastError, s, trace))"
  by pat_completeness auto
termination
  by (relation "measure (\<lambda>(processor, retryAttempts, batch, attempt, rest).
        nat (retryAttempts - attempt))") auto

declare retryLoop.simps [simp del]

fun processBatches ::
  "('a, 's) processor \<Rightarrow> int \<Rightarrow> 'a list list \<Rightarrow> jsval list \<Rightarrow> 's \<Rightarrow> 'a retry_event list
     \<Rightarrow> (error + jsval list) \<times> 's \<times> 'a retry_event list" where
  "processBatches processor retryAttempts [] results s trace = (Inr results, s, trace)"
| "processBatches processor retryAttempts (batch # rest) results s trace =
     (case retryLoop processor retryAttempts batch 0 None s trace of
        (Succeeded result, s', trace') \<Rightarrow>
          processBatches processor retryAttempts rest (results @ [result]) s' trace'
      | (Rethrown err, s', trace') \<Rightarrow> (Inl err, s', trace')
      | (Exhausted (Some err), s', trace') \<Rightarrow> (Inl err, s', trace')
      | (Exhausted None, s', trace') \<Rightarrow>
          processBatches processor retryAttempts rest results s' trace')"

text \<open>None: the loop that splits the items does not end.\<close>

definition processBatchWithRetry ::
  "'a list \<Rightarrow> int \<Rightarrow> ('a, 's) processor \<Rightarrow> int \<Rightarrow> 's
     \<Rightarrow> ((error + jsval list) \<times> 's \<times> 'a retry_event list) option" where
  "processBatchWithRetry items batchSize processor retryAttempts s =
     (case splitLoop items batchSize 0 [] of
        None \<Rightarrow> None
      | Some batches \<Rightarrow> Some (processBatches processor retryAttempts batches [] s []))"

section \<open>utils: parseJsonInput, wrapResponse\<close>

definition parseJsonInput :: "'w host \<Rightarrow> jsval \<Rightarrow> error + jsval" where
  "parseJsonInput h input =
     (case input of
        JStr s \<Rightarrow>
          (case JSON_parse h s of
             Inl e \<Rightarrow> Inl (Error ''Invalid JSON format'')
           | Inr v \<Rightarrow> Inr v)
      | _ \<Rightarrow> Inr input)"

text \<open>The parameter \<open>data: IDataObject | IDataObject[]\<close> of \<open>wrapResponse\<close>.\<close>

datatype response_data = One IDataObject | Many "IDataObject list"

fun wrapResponse :: "response_data \<Rightarrow> IDataObject \<Rightarrow> jsval list" where
  "wrapResponse (Many items) metadata =
     map (\<lambda>item. JObj [(''json'', JObj (spread (spread [] item) metadata))]) items"
| "wrapResponse (One item) metadata =
     [JObj [(''json'', JObj (spread (spread [] item) metadata))]]"

section \<open>actions/event: importEvents\<close>

text \<open>
  Reading \<open>eventData.key\<close>, for the keys this code reads (none of them is a property of
  a string, a number, a boolean or an array): a TypeError on null and undefined, with
  the message of V8.
\<close>

fun get_member :: "jsval \<Rightarrow> string \<Rightarrow> error + jsval" where
  "get_member JUndefined key =
     Inl (TypeError (''Cannot read properties of undefined (reading '' @ [CHR 0x27] @ key
                       @ [CHR 0x27] @ '')''))"
| "get_member JNull key =
     Inl (TypeError (''Cannot read properties of null (reading '' @ [CHR 0x27] @ key
                       @ [CHR 0x27] @ '')''))"
| "get_member (JObj obj) key = Inr (obj_get obj key)"
| "get_member _ key = Inr JUndefined"

text \<open>\<open>eventData.a || eventData.b\<close>\<close>

definition member_or :: "jsval \<Rightarrow> string \<Rightarrow> string \<Rightarrow> error + jsval" where
  "member_or eventData a b =
     (case get_member eventData a of
        Inl e \<Rightarrow> Inl e
      | Inr v \<Rightarrow> if truthy v then Inr v else get_member eventData b)"

text \<open>
  \<open>(eventData.$insert_id as string) || generateInsertId(distinctId)\<close>: the clock and the
  random generator are read only when the event has no insert id.
\<close>

definition importInsertId :: "'w host \<Rightarrow> jsval \<Rightarrow> jsval \<Rightarrow> 'w world \<Rightarrow> (error + jsval) \<times> 'w world" where
  "importInsertId h eventData distinctId w =
     (case get_member eventData ''$insert_id'' of
        Inl e \<Rightarrow> (Inl e, w)
      | Inr given \<Rightarrow>
          if truthy given then (Inr given, w)
          else (case distinctId of
                  JStr d \<Rightarrow>
                    (let (timestamp, out1) = Date_now h (outside w);
                         (random36, out2) = Math_random_toString36 h out1
                     in (Inr (JStr (generateInsertId d timestamp random36)),
                         w\<lparr>outside := out2\<rparr>))
                | _ \<Rightarrow> (Inl (IllTyped ''distinctId''), w)))"

text \<open>\<open>(eventData.properties as IDataObject) || {}\<close>\<close>

definition importProperties :: "jsval \<Rightarrow> error + IDataObject" where
  "importProperties eventData =
     (case get_member eventData ''properties'' of
        Inl e \<Rightarrow> Inl e
      | Inr given \<Rightarrow>
          if truthy given
          then (case given of JObj obj \<Rightarrow> Inr obj | _ \<Rightarrow> Inl (IllTyped ''properties''))
          else Inr [])"

text \<open>The argument \<open>time\<close> of \<open>toSeconds(time)\<close>, cast to a number.\<close>

definition importTime :: "jsval \<Rightarrow> error + timestamp" where
  "importTime t =
     (case t of
        JNum n \<Rightarrow> Inr (TsNumber n)
      | JStr s \<Rightarrow> Inr (TsString s)
      | _ \<Rightarrow> Inl (IllTyped ''time''))"

text \<open>The function mapped over the events of \<open>importEvents\<close>.\<close>

definition buildImportEvent :: "'w host \<Rightarrow> string \<Rightarrow> jsval \<Rightarrow> 'w world \<Rightarrow> (error + jsval) \<times> 'w world" where
  "buildImportEvent h token eventData w =
     (case member_or eventData ''distinct_id'' ''distinctId'' of
        Inl e \<Rightarrow> (Inl e, w)
      | Inr distinctId \<Rightarrow>
     if \<not> truthy distinctId then (Inl (Error ''Each event must have a distinct_id''), w) else
     (case member_or eventData ''event'' ''eventName'' of
        Inl e \<Rightarrow> (Inl e, w)
      | Inr eventName \<Rightarrow>
     if \<not> truthy eventName then (Inl (Error ''Each event must have an event name''), w) else
     (case get_member eventData ''time'' of
        Inl e \<Rightarrow> (Inl e, w)
      | Inr t \<Rightarrow>
     if \<not> truthy t then (Inl (Error ''Each imported event must have a time field''), w) else
     (case importInsertId h eventData distinctId w of
        (Inl e, w') \<Rightarrow> (Inl e, w')
      | (Inr insertId, w') \<Rightarrow>
     (case importProperties eventData of
        Inl e \<Rightarrow> (Inl e, w')
      | Inr existingProperties \<Rightarrow>
     (case importTime t of
        Inl e \<Rightarrow> (Inl e, w')
      | Inr ts \<Rightarrow>
          (Inr (JObj [(''event'', eventName),
                 (''properties'', JObj (cleanObject
                    (spread [(''token'', JStr token), (''distinct_id'', distinctId),
                             (''$insert_id'', insertId), (''time'', JNum (toSeconds ts))]
                       existingProperties)))]),
           w')))))))"

text \<open>\<open>eventsData.map(...)\<close>: in order, and the first throw ends it.\<close>

fun buildImportEvents ::
  "'w host \<Rightarrow> string \<Rightarrow> jsval list \<Rightarrow> 'w world \<Rightarrow> (error + jsval list) \<times> 'w world" where
  "buildImportEvents h token [] w = (Inr [], w)"
| "buildImportEvents h token (eventData # rest) w =
     (case buildImportEvent h token eventData w of
        (Inl e, w') \<Rightarrow> (Inl e, w')
      | (Inr event, w') \<Rightarrow>
          (case buildImportEvents h token rest w' of
             (Inl e, w'') \<Rightarrow> (Inl e, w'')
           | (Inr events, w'') \<Rightarrow> (Inr (event # events), w'')))"

text \<open>The loop over the batches: one request each, in order.\<close>

fun importBatches ::
  "'w host \<Rightarrow> jsval list list \<Rightarrow> jsval list \<Rightarrow> 'w world \<Rightarrow> (error + jsval list) \<times> 'w world" where
  "importBatches h [] results w = (Inr results, w)"
| "importBatches h (batch # rest) results w =
     (case mixpanelIngestionApiRequest h ''POST'' ENDPOINTS_IMPORT (JArr batch) w of
        (Inl e, w') \<Rightarrow> (Inl e, w')
      | (Inr response, w') \<Rightarrow>
          (case response of
             JObj payload \<Rightarrow>
               importBatches h rest
                 (results @ [JObj (spread [(''batchSize'', JNum (Num (int (length batch))))] payload)])
                 w'
           | _ \<Rightarrow> (Inl (IllTyped ''response''), w')))"

text \<open>
  \<open>eventsInput\<close> is the node parameter \<open>importEvents\<close>. None: the loop that splits the
  events does not end.
\<close>

definition importEvents ::
  "'w host \<Rightarrow> string \<Rightarrow> jsval \<Rightarrow> 'w world \<Rightarrow> ((error + jsval list) \<times> 'w world) option" where
  "importEvents h token eventsInput w =
     (case parseJsonInput h eventsInput of
        Inl e \<Rightarrow> Some (Inl e, w)
      | Inr eventsData \<Rightarrow>
          (case eventsData of
             JArr items \<Rightarrow>
               (case buildImportEvents h token items w of
                  (Inl e, w1) \<Rightarrow> Some (Inl e, w1)
                | (Inr events, w1) \<Rightarrow>
                    (case splitIntoBatches events RATE_LIMITS_BATCH_SIZE of
                       None \<Rightarrow> None
                     | Some batches \<Rightarrow>
                         (case importBatches h batches [] w1 of
                            (Inl e, w2) \<Rightarrow> Some (Inl e, w2)
                          | (Inr results, w2) \<Rightarrow>
                              Some (Inr (wrapResponse
                                (One [(''success'', JBool True),
                                      (''totalEvents'', JNum (Num (int (length events)))),
                                      (''batches'', JNum (Num (int (length results)))),
                                      (''results'', JArr results)]) []), w2))))
           | _ \<Rightarrow> Some (Inl (Error ''Events must be an array''), w)))"

section \<open>Objects: lookup after assignment and spread\<close>

lemma obj_get_set: "obj_get (obj_set obj k v) key = (if key = k then v else obj_get obj key)"
  by (simp add: obj_get_def obj_set_def update_conv')

lemma map_of_spread:
  "distinct (map fst source) \<Longrightarrow>
   map_of (spread target source) key =
     (case map_of source key of None \<Rightarrow> map_of target key | Some v \<Rightarrow> Some v)"
  unfolding spread_def
proof (induction source arbitrary: target)
  case Nil
  then show ?case by simp
next
  case (Cons e source)
  obtain k v where e: "e = (k, v)" by (cases e)
  from Cons.prems e have nk: "map_of source k = None" and d: "distinct (map fst source)"
    by (auto simp: map_of_eq_None_iff)
  show ?case
    using Cons.IH[OF d, of "obj_set target k v"] nk unfolding e
    by (auto simp: obj_set_def update_conv' split: option.splits)
qed

lemma obj_get_spread:
  "distinct (map fst source) \<Longrightarrow>
   obj_get (spread target source) key =
     (case map_of source key of None \<Rightarrow> obj_get target key | Some v \<Rightarrow> v)"
  by (simp add: obj_get_def map_of_spread split: option.splits)

section \<open>buildEventProperties: which value each field gets\<close>

lemma buildEventProperties_other:
  "key \<noteq> ''time'' \<Longrightarrow> key \<noteq> ''ip'' \<Longrightarrow>
   obj_get (buildEventProperties token distinctId insertId additionalProperties options now) key
     = obj_get (spread [(''token'', JStr token), (''distinct_id'', JStr distinctId),
                    (''$insert_id'', JStr insertId)] additionalProperties) key"
  by (simp add: buildEventProperties_def Let_def obj_get_set split: option.splits)

lemma buildEventProperties_time:
  "obj_get (buildEventProperties token distinctId insertId additionalProperties options now) ''time''
     = (case time options of
          Some t \<Rightarrow> if truthy (JNum t) then JNum (toSeconds (TsNumber t))
                    else JNum (Num (now div 1000))
        | None \<Rightarrow> JNum (Num (now div 1000)))"
  by (simp add: buildEventProperties_def Let_def obj_get_set split: option.splits)

text \<open>
  Claim C1, as the code has it. The additional properties are spread after \<open>token\<close>,
  \<open>distinct_id\<close> and \<open>$insert_id\<close>, so each of the three fields holds the builder's
  argument only when the additional properties have no such key, and the caller's value
  otherwise. When the additional properties have no key \<open>time\<close>, the field \<open>time\<close> is
  \<open>options.time\<close> in seconds when that is a number other than 0 and NaN, and the clock in
  seconds otherwise. Nothing is stated of \<open>time\<close> when the additional properties hold that
  key.
\<close>

theorem buildEventProperties_fields:
  assumes "distinct (map fst additionalProperties)"
  shows "obj_get (buildEventProperties token distinctId insertId additionalProperties options now) ''token''
           = (case map_of additionalProperties ''token'' of None \<Rightarrow> JStr token | Some v \<Rightarrow> v)
       \<and> obj_get (buildEventProperties token distinctId insertId additionalProperties options now) ''distinct_id''
           = (case map_of additionalProperties ''distinct_id'' of None \<Rightarrow> JStr distinctId | Some v \<Rightarrow> v)
       \<and> obj_get (buildEventProperties token distinctId insertId additionalProperties options now) ''$insert_id''
           = (case map_of additionalProperties ''$insert_id'' of None \<Rightarrow> JStr insertId | Some v \<Rightarrow> v)
       \<and> (map_of additionalProperties ''time'' = None \<longrightarrow>
            obj_get (buildEventProperties token distinctId insertId additionalProperties options now) ''time''
              = (case time options of
                   Some t \<Rightarrow> if truthy (JNum t) then JNum (toSeconds (TsNumber t))
                             else JNum (Num (now div 1000))
                 | None \<Rightarrow> JNum (Num (now div 1000))))"
proof -
  have 1: "obj_get (buildEventProperties token distinctId insertId additionalProperties options now) ''token''
           = (case map_of additionalProperties ''token'' of None \<Rightarrow> JStr token | Some v \<Rightarrow> v)"
    by (simp add: buildEventProperties_other obj_get_spread[OF assms])
      (simp add: obj_get_def split: option.splits)
  have 2: "obj_get (buildEventProperties token distinctId insertId additionalProperties options now) ''distinct_id''
           = (case map_of additionalProperties ''distinct_id'' of None \<Rightarrow> JStr distinctId | Some v \<Rightarrow> v)"
    by (simp add: buildEventProperties_other obj_get_spread[OF assms])
      (simp add: obj_get_def split: option.splits)
  have 3: "obj_get (buildEventProperties token distinctId insertId additionalProperties options now) ''$insert_id''
           = (case map_of additionalProperties ''$insert_id'' of None \<Rightarrow> JStr insertId | Some v \<Rightarrow> v)"
    by (simp add: buildEventProperties_other obj_get_spread[OF assms])
      (simp add: obj_get_def split: option.splits)
  show ?thesis using 1 2 3 buildEventProperties_time by blast
qed

theorem buildEventProperties_fields_witness:
  "distinct (map fst [(''price'', JNum (Num 9)), (''token'', JStr ''mine'')])
   \<and> map_of [(''price'', JNum (Num 9)), (''token'', JStr ''mine'')] ''time'' = None
   \<and> obj_get (buildEventProperties ''tok'' ''u_1'' ''ins''
        [(''price'', JNum (Num 9)), (''token'', JStr ''mine'')]
        \<lparr>time = Some (Num 1700000000000), ip = None\<rparr> 0) ''token'' = JStr ''mine''
   \<and> obj_get (buildEventProperties ''tok'' ''u_1'' ''ins''
        [(''price'', JNum (Num 9)), (''token'', JStr ''mine'')]
        \<lparr>time = Some (Num 1700000000000), ip = None\<rparr> 0) ''distinct_id'' = JStr ''u_1''
   \<and> obj_get (buildEventProperties ''tok'' ''u_1'' ''ins''
        [(''price'', JNum (Num 9)), (''token'', JStr ''mine'')]
        \<lparr>time = Some (Num 1700000000000), ip = None\<rparr> 0) ''time'' = JNum (Num 1700000000)"
proof -
  have d: "distinct (map fst [(''price'', JNum (Num 9)), (''token'', JStr ''mine'')])"
    by simp
  show ?thesis
    using d buildEventProperties_fields[OF d, of "''tok''" "''u_1''" "''ins''"
        "\<lparr>time = Some (Num 1700000000000), ip = None\<rparr>" 0]
    by (simp add: toSeconds_def ts_number_def)
qed

text \<open>
  Claim C1 as stated fails: a caller whose properties hold the key \<open>token\<close> gets that
  value in the result, not the builder's argument; and a caller whose properties hold
  the key \<open>time\<close> and who gives no \<open>options.time\<close> gets the clock in seconds, not that
  value.
\<close>

theorem buildEventProperties_token_counterexample:
  "obj_get (buildEventProperties ''tok'' ''u1'' ''ins'' [(''token'', JStr ''evil'')]
      \<lparr>time = None, ip = None\<rparr> 1700000000999) ''token'' = JStr ''evil''
   \<and> obj_get (buildEventProperties ''tok'' ''u1'' ''ins'' [(''token'', JStr ''evil'')]
      \<lparr>time = None, ip = None\<rparr> 1700000000999) ''token'' \<noteq> JStr ''tok''
   \<and> obj_get (buildEventProperties ''tok'' ''u1'' ''ins'' [(''time'', JNum (Num 5))]
      \<lparr>time = None, ip = None\<rparr> 1700000000999) ''time'' = JNum (Num 1700000000)
   \<and> obj_get (buildEventProperties ''tok'' ''u1'' ''ins'' [(''time'', JNum (Num 5))]
      \<lparr>time = None, ip = None\<rparr> 1700000000999) ''time'' \<noteq> JNum (Num 5)"
  by (simp add: buildEventProperties_def spread_def obj_set_def obj_get_def)

section \<open>toMilliseconds and toSeconds around the threshold\<close>

lemma timestamps_below_threshold:
  "t < 10000000000 \<Longrightarrow>
   toMilliseconds (TsNumber (Num t)) = Num (t * 1000) \<and> toSeconds (TsNumber (Num t)) = Num t"
  by (simp add: toSeconds_def toMilliseconds_def ts_number_def)

lemma timestamps_above_threshold:
  "t > 10000000000 \<Longrightarrow>
   toMilliseconds (TsNumber (Num t)) = Num t \<and> toSeconds (TsNumber (Num t)) = Num (t div 1000)"
  by (simp add: toSeconds_def toMilliseconds_def ts_number_def)

text \<open>
  Claim C2 at the threshold itself. \<open>toMilliseconds\<close> takes 10,000,000,000 for
  milliseconds and returns it as it is; \<open>toSeconds\<close> tests \<open>ts > 10000000000\<close>, so it takes
  the same value for seconds and returns it as it is too, where the claim asks for
  \<open>floor(t / 1000)\<close> = 10,000,000.
\<close>

theorem toSeconds_at_threshold:
  "toSeconds (TsNumber (Num 10000000000)) = Num 10000000000
   \<and> toSeconds (TsNumber (Num 10000000000)) \<noteq> Num (10000000000 div 1000)
   \<and> toMilliseconds (TsNumber (Num 10000000000)) = Num 10000000000"
  by (simp add: toSeconds_def toMilliseconds_def ts_number_def)

section \<open>cleanObject: which keys stay\<close>

lemma map_of_cleanEntries:
  "distinct (map fst entries) \<Longrightarrow>
   map_of (cleanEntries cleaned entries) key =
     (case map_of entries key of
        None \<Rightarrow> map_of cleaned key
      | Some v \<Rightarrow>
          (if v = JUndefined \<or> v = JNull \<or> v = JStr [] then map_of cleaned key
           else case v of
                  JObj nested \<Rightarrow>
                    if cleanEntries [] nested = [] then map_of cleaned key
                    else Some (JObj (cleanEntries [] nested))
                | _ \<Rightarrow> Some v))"
proof (induction entries arbitrary: cleaned)
  case Nil
  then show ?case by simp
next
  case (Cons e entries)
  obtain k v where e: "e = (k, v)" by (cases e)
  from Cons.prems e have nk: "map_of entries k = None" and d: "distinct (map fst entries)"
    by (auto simp: map_of_eq_None_iff)
  show ?case
    using Cons.IH[OF d] nk unfolding e
    by (cases v) (auto simp: obj_set_def update_conv' Let_def split: option.splits jsval.splits)
qed

text \<open>
  Claim C3, as the code has it. Besides the keys whose value is undefined, null or the
  empty string, \<open>cleanObject\<close> removes every key whose value is an object that has no key
  left after cleaning; an object with a key left is kept cleaned, and every other value
  (0, false, an array, empty or not) is kept as it is.
\<close>

theorem cleanObject_entries:
  assumes "distinct (map fst obj)"
  shows "map_of (cleanObject obj) key =
           (case map_of obj key of
              None \<Rightarrow> None
            | Some v \<Rightarrow>
                (if v = JUndefined \<or> v = JNull \<or> v = JStr [] then None
                 else case v of
                        JObj nested \<Rightarrow>
                          if cleanObject nested = [] then None
                          else Some (JObj (cleanObject nested))
                      | _ \<Rightarrow> Some v))
       \<and> cleanObject [(''a'', JStr ''v''), (''b'', JUndefined), (''c'', JNull), (''d'', JStr []),
             (''e'', JNum (Num 0)), (''f'', JBool False),
             (''g'', JObj [(''h'', JUndefined), (''i'', JStr ''x'')])]
           = [(''a'', JStr ''v''), (''e'', JNum (Num 0)), (''f'', JBool False),
              (''g'', JObj [(''i'', JStr ''x'')])]"
proof -
  have general: "map_of (cleanObject obj) key =
           (case map_of obj key of
              None \<Rightarrow> None
            | Some v \<Rightarrow>
                (if v = JUndefined \<or> v = JNull \<or> v = JStr [] then None
                 else case v of
                        JObj nested \<Rightarrow>
                          if cleanObject nested = [] then None
                          else Some (JObj (cleanObject nested))
                      | _ \<Rightarrow> Some v))"
    by (simp add: cleanObject_def map_of_cleanEntries[OF assms]
        split: option.splits jsval.splits)
  have example: "cleanObject [(''a'', JStr ''v''), (''b'', JUndefined), (''c'', JNull), (''d'', JStr []),
             (''e'', JNum (Num 0)), (''f'', JBool False),
             (''g'', JObj [(''h'', JUndefined), (''i'', JStr ''x'')])]
           = [(''a'', JStr ''v''), (''e'', JNum (Num 0)), (''f'', JBool False),
              (''g'', JObj [(''i'', JStr ''x'')])]"
    by (simp add: cleanObject_def obj_set_def Let_def)
  show ?thesis by (rule conjI[OF general example])
qed

theorem cleanObject_entries_witness:
  "distinct (map fst [(''n'', JNum (Num 0)), (''g'', JObj [(''h'', JNull)]), (''l'', JArr [])])
   \<and> map_of (cleanObject [(''n'', JNum (Num 0)), (''g'', JObj [(''h'', JNull)]), (''l'', JArr [])])
        ''n'' = Some (JNum (Num 0))
   \<and> map_of (cleanObject [(''n'', JNum (Num 0)), (''g'', JObj [(''h'', JNull)]), (''l'', JArr [])])
        ''g'' = None
   \<and> map_of (cleanObject [(''n'', JNum (Num 0)), (''g'', JObj [(''h'', JNull)]), (''l'', JArr [])])
        ''l'' = Some (JArr [])"
proof -
  have d: "distinct (map fst [(''n'', JNum (Num 0)), (''g'', JObj [(''h'', JNull)]), (''l'', JArr [])])"
    by simp
  have e: "cleanObject [(''h'', JNull)] = []"
    by (simp add: cleanObject_def)
  show ?thesis
    using d cleanObject_entries[OF d, of "''n''"] cleanObject_entries[OF d, of "''g''"]
      cleanObject_entries[OF d, of "''l''"] e
    by simp
qed

text \<open>
  Claim C3 as stated fails: a nested object that is empty after cleaning is not kept as
  an empty object, its key is removed.
\<close>

theorem cleanObject_empty_nested_counterexample:
  "cleanObject [(''g'', JObj [(''h'', JUndefined)])] = []
   \<and> cleanObject [(''g'', JObj [(''h'', JUndefined)])] \<noteq> [(''g'', JObj [])]"
  by (simp add: cleanObject_def)

section \<open>splitIntoBatches: the batches\<close>

lemma slice_nat: "slice xs (int a) (int a + int c) = take c (drop a xs)"
proof (cases "a \<le> length xs")
  case True
  then have "nat (min (int a + int c) (int (length xs)) - int a) = min c (length xs - a)"
    by linarith
  then show ?thesis using True by (simp add: slice_def Let_def min_absorb1 min_def)
next
  case False
  then show ?thesis by (simp add: slice_def Let_def)
qed

lemma less_batch_count:
  assumes "0 < m"
  shows "(k < nat \<lceil>real n / real_of_int m\<rceil>) = (k * nat m < n)"
proof -
  have "(k < nat \<lceil>real n / real_of_int m\<rceil>) = (int k < \<lceil>real n / real_of_int m\<rceil>)"
    by (simp add: zless_nat_eq_int_zless)
  also have "\<dots> = (real k < real n / real_of_int m)"
    by (simp add: less_ceiling_iff)
  also have "\<dots> = (real k * real_of_int m < real n)"
    using assms by (simp add: pos_less_divide_eq)
  also have "real k * real_of_int m = real (k * nat m)"
    using assms by simp
  also have "(real (k * nat m) < real n) = (k * nat m < n)"
    by (rule of_nat_less_iff)
  finally show ?thesis .
qed

lemma splitLoop_from:
  assumes m: "0 < m" and c: "c = nat \<lceil>real (length xs) / real_of_int m\<rceil>"
  shows "splitLoop xs m (int (k * nat m)) acc =
      Some (acc @ map (\<lambda>j. take (nat m) (drop (j * nat m) xs)) [k ..< c])"
proof (induction "c - k" arbitrary: k acc)
  case 0
  then have nlt: "\<not> k < c" by linarith
  then have "\<not> k * nat m < length xs"
    using less_batch_count[OF m, of k "length xs"] unfolding c by blast
  then have "\<not> int (k * nat m) < int (length xs)"
    by (simp only: of_nat_less_iff not_False_eq_True)
  moreover have "[k ..< c] = []" using nlt by simp
  ultimately show ?case by (subst splitLoop.simps) (simp only: if_False list.map append_Nil2)
next
  case (Suc d)
  then have lt: "k < c" by linarith
  then have less: "k * nat m < length xs"
    using less_batch_count[OF m, of k "length xs"] unfolding c by blast
  have step: "int (k * nat m) + m = int (Suc k * nat m)" using m by (simp add: algebra_simps)
  have sl: "slice xs (int (k * nat m)) (int (k * nat m) + m) = take (nat m) (drop (k * nat m) xs)"
    using slice_nat[of xs "k * nat m" "nat m"] m by simp
  have "splitLoop xs m (int (k * nat m)) acc =
        splitLoop xs m (int (Suc k * nat m)) (acc @ [take (nat m) (drop (k * nat m) xs)])"
    using less
    by (subst splitLoop.simps) (simp only: sl[unfolded step] step of_nat_less_iff if_True)
  also have "\<dots> = Some ((acc @ [take (nat m) (drop (k * nat m) xs)]) @
        map (\<lambda>j. take (nat m) (drop (j * nat m) xs)) [Suc k ..< c])"
    using Suc.hyps(1)[of "Suc k"] Suc.hyps(2) lt by simp
  finally show ?case using lt by (simp add: upt_conv_Cons)
qed

lemma splitIntoBatches_eq:
  "0 < m \<Longrightarrow> splitIntoBatches xs m =
      Some (map (\<lambda>j. take (nat m) (drop (j * nat m) xs))
              [0 ..< nat \<lceil>real (length xs) / real_of_int m\<rceil>])"
  using splitLoop_from[of m _ xs 0 "[]", OF _ refl] by (simp add: splitIntoBatches_def)

lemma concat_chunks:
  "0 < c \<Longrightarrow> concat (map (\<lambda>j. take c (drop (j * c) xs)) [0 ..< k]) = take (k * c) xs"
proof (induction k)
  case 0
  then show ?case by simp
next
  case (Suc k)
  have "take (k * c) xs @ take c (drop (k * c) xs) = take (k * c + c) xs"
    by (simp add: take_add)
  then show ?case using Suc by (simp add: add.commute)
qed

lemma chunk_nth:
  "take c (drop (i * c) xs) = map (nth xs) [i * c ..< min ((i + 1) * c) (length xs)]"
proof -
  have "take c (drop (i * c) xs) = take c (drop (i * c) (map (nth xs) [0 ..< length xs]))"
    by (simp add: map_nth)
  also have "\<dots> = map (nth xs) (take c (drop (i * c) [0 ..< length xs]))"
    by (simp add: take_map drop_map)
  also have "take c (drop (i * c) [0 ..< length xs]) = [i * c ..< min (i * c + c) (length xs)]"
    by (cases "i * c + c \<le> length xs") (simp_all add: min_def)
  finally show ?thesis by (simp add: add.commute)
qed

text \<open>
  Claim C4. For a positive batch size \<open>m\<close> the loop ends, and it returns
  \<open>ceil(n / m)\<close> batches; batch \<open>i\<close> holds the records at the indices from \<open>i * m\<close> up to
  \<open>min((i + 1) * m, n)\<close>, in order; every batch but the last has \<open>m\<close> records; the
  batches concatenated are the records; no record gives no batch.
\<close>

theorem splitIntoBatches_batches:
  assumes "0 < m"
  shows "\<exists>batches. splitIntoBatches records m = Some batches
    \<and> int (length batches) = \<lceil>real (length records) / real_of_int m\<rceil>
    \<and> (\<forall>i < length batches.
          batches ! i = map (nth records) [i * nat m ..< min ((i + 1) * nat m) (length records)])
    \<and> (\<forall>i. Suc i < length batches \<longrightarrow> length (batches ! i) = nat m)
    \<and> concat batches = records
    \<and> (records = [] \<longrightarrow> batches = [])"
proof -
  let ?c = "nat m" and ?n = "length records"
  let ?k = "nat \<lceil>real ?n / real_of_int m\<rceil>"
  let ?bs = "map (\<lambda>j. take ?c (drop (j * ?c) records)) [0 ..< ?k]"
  have c: "0 < ?c" using assms by simp
  have 1: "splitIntoBatches records m = Some ?bs" by (rule splitIntoBatches_eq[OF assms])
  have "0 \<le> real ?n / real_of_int m" using assms by simp
  then have "0 \<le> \<lceil>real ?n / real_of_int m\<rceil>" by linarith
  then have 2: "int (length ?bs) = \<lceil>real ?n / real_of_int m\<rceil>" by simp
  have 3: "\<forall>i < length ?bs. ?bs ! i = map (nth records) [i * ?c ..< min ((i + 1) * ?c) ?n]"
    using chunk_nth[of ?c _ records] by simp
  have 4: "\<forall>i. Suc i < length ?bs \<longrightarrow> length (?bs ! i) = ?c"
  proof (intro allI impI)
    fix i assume "Suc i < length ?bs"
    then have lt: "Suc i < ?k" by simp
    then have "Suc i * ?c < ?n" using less_batch_count[OF assms, of "Suc i" ?n] by simp
    then have "i * ?c + ?c \<le> ?n" by simp
    then show "length (?bs ! i) = ?c" using lt by simp
  qed
  have "\<not> ?k < ?k" by simp
  then have "\<not> ?k * ?c < ?n" using less_batch_count[OF assms, of ?k ?n] by simp
  then have 5: "concat ?bs = records" using concat_chunks[OF c, of records ?k] by simp
  have 6: "records = [] \<longrightarrow> ?bs = []" by simp
  show ?thesis using 1 2 3 4 5 6 by blast
qed

theorem splitIntoBatches_batches_witness:
  "(0::int) < 2
   \<and> (\<exists>batches. splitIntoBatches [1, 2, 3, 4, 5 :: nat] 2 = Some batches
        \<and> int (length batches) = 3
        \<and> batches ! 2 = [5]
        \<and> concat batches = [1, 2, 3, 4, 5])"
proof -
  have pos: "(0::int) < 2" by simp
  obtain batches where b: "splitIntoBatches [1, 2, 3, 4, 5 :: nat] 2 = Some batches"
      "int (length batches) = \<lceil>real (length [1, 2, 3, 4, 5 :: nat]) / real_of_int 2\<rceil>"
      "\<forall>i < length batches.
          batches ! i = map (nth [1, 2, 3, 4, 5 :: nat])
            [i * nat 2 ..< min ((i + 1) * nat 2) (length [1, 2, 3, 4, 5 :: nat])]"
      "concat batches = [1, 2, 3, 4, 5]"
    using splitIntoBatches_batches[OF pos, of "[1, 2, 3, 4, 5 :: nat]"] by blast
  have l: "int (length batches) = 3" using b(2) by simp
  then have "batches ! 2 = map (nth [1, 2, 3, 4, 5 :: nat])
            [2 * nat 2 ..< min ((2 + 1) * nat 2) (length [1, 2, 3, 4, 5 :: nat])]"
    using b(3) by simp
  then have "batches ! 2 = [5]" by (simp add: upt_conv_Cons)
  then show ?thesis using pos b(1) l b(4) by blast
qed

section \<open>generateInsertId: the shape of an insert id\<close>

lemma digit_char_is_digit: "d < 10 \<Longrightarrow> is_digit (digit_char d)"
  by (simp add: is_digit_def digit_char_def)

lemma digit_val_digit_char: "d < 10 \<Longrightarrow> digit_val (digit_char d) = int d"
  by (simp add: digit_val_def digit_char_def)

lemma digits_val_snoc: "digits_val (ds @ [c]) = 10 * digits_val ds + digit_val c"
  by (simp add: digits_val_def)

lemma show_nat_digits: "c \<in> set (show_nat n) \<Longrightarrow> is_digit c"
proof (induction n arbitrary: c rule: show_nat.induct)
  case (1 n)
  show ?case
  proof (cases "n < 10")
    case True
    then show ?thesis using "1.prems" by (simp add: show_nat.simps[of n] digit_char_is_digit)
  next
    case False
    then show ?thesis using "1.prems" "1.IH"
      by (auto simp: show_nat.simps[of n] digit_char_is_digit)
  qed
qed

lemma digits_val_show_nat: "digits_val (show_nat n) = int n"
proof (induction n rule: show_nat.induct)
  case (1 n)
  show ?case
  proof (cases "n < 10")
    case True
    then show ?thesis
      by (simp add: show_nat.simps[of n] digits_val_def digit_val_digit_char)
  next
    case False
    then have "digits_val (show_nat n) = 10 * int (n div 10) + int (n mod 10)"
      using "1.IH" by (simp add: show_nat.simps[of n] digits_val_snoc digit_val_digit_char)
    then show ?thesis by presburger
  qed
qed

lemma show_nat_inj: "show_nat a = show_nat b \<Longrightarrow> a = b"
  by (metis digits_val_show_nat of_nat_eq_iff)

lemma show_nat_not_Nil: "show_nat n \<noteq> []"
  by (subst show_nat.simps) simp

lemma show_nat_no_minus: "CHR ''-'' \<notin> set (show_nat n)"
  using show_nat_digits[of "CHR ''-''" n] by (auto simp: is_digit_def)

lemma show_int_minus: "(hd (show_int a) = CHR ''-'') = (a < 0)"
proof (cases "a < 0")
  case True
  then show ?thesis by (simp add: show_int_def)
next
  case False
  have "hd (show_nat (nat a)) \<in> set (show_nat (nat a))"
    by (rule hd_in_set[OF show_nat_not_Nil])
  then have "hd (show_nat (nat a)) \<noteq> CHR ''-''"
    using show_nat_no_minus[of "nat a"] by metis
  then show ?thesis using False by (simp add: show_int_def)
qed

lemma show_int_inj: "show_int a = show_int b \<Longrightarrow> a = b"
proof -
  assume eq: "show_int a = show_int b"
  then have sign: "(a < 0) = (b < 0)" using show_int_minus[of a] show_int_minus[of b] by simp
  show ?thesis
  proof (cases "a < 0")
    case True
    with sign eq have "show_nat (nat (- a)) = show_nat (nat (- b))"
      by (simp add: show_int_def)
    then have "nat (- a) = nat (- b)" by (rule show_nat_inj)
    with True sign show ?thesis by linarith
  next
    case False
    with sign eq have "nat a = nat b" by (simp add: show_int_def show_nat_inj)
    with False sign show ?thesis by linarith
  qed
qed

lemma show_int_no_underscore: "CHR ''_'' \<notin> set (show_int t)"
  using show_nat_digits[of "CHR ''_''"] by (auto simp: show_int_def is_digit_def)

lemma split_on_none: "sep \<notin> set s \<Longrightarrow> split_on sep s = [s]"
  by (induction s) auto

lemma split_on_not_Nil: "split_on sep s \<noteq> []"
  by (induction s) (auto split: list.splits)

lemma split_on_first: "sep \<notin> set a \<Longrightarrow> split_on sep (a @ sep # b) = a # split_on sep b"
  by (induction a) (auto split: list.splits)

lemma separated_eq:
  "sep \<notin> set a \<Longrightarrow> sep \<notin> set a' \<Longrightarrow> a @ sep # b = a' @ sep # b' \<Longrightarrow> a = a' \<and> b = b'"
proof (induction a arbitrary: a')
  case Nil
  then show ?case by (cases a') auto
next
  case (Cons x a)
  then show ?case by (cases a') auto
qed

text \<open>
  Claim C6, as the code has it. Every insert id starts with the distinct id and an
  underscore. It splits at the underscores into the distinct id, the clock reading and
  the random part when the distinct id has no underscore (the string
  \<open>Math.random().toString(36)\<close> has none). Two calls for the same distinct id return the
  same string exactly when they read the same clock value and their random parts (the
  characters 2 to 10 of the random string) are the same.
\<close>

theorem generateInsertId_shape:
  "take (length distinctId + 1) (generateInsertId distinctId t r) = distinctId @ ''_''
   \<and> (CHR ''_'' \<notin> set distinctId \<and> CHR ''_'' \<notin> set r \<longrightarrow>
        split_on CHR ''_'' (generateInsertId distinctId t r)
          = [distinctId, show_int t, substring r 2 11])
   \<and> ((generateInsertId distinctId t1 r1 = generateInsertId distinctId t2 r2)
        = (t1 = t2 \<and> substring r1 2 11 = substring r2 2 11))"
proof (intro conjI impI)
  show "take (length distinctId + 1) (generateInsertId distinctId t r) = distinctId @ ''_''"
    by (simp add: generateInsertId_def)
next
  assume a: "CHR ''_'' \<notin> set distinctId \<and> CHR ''_'' \<notin> set r"
  then have "CHR ''_'' \<notin> set (substring r 2 11)"
    by (auto simp: substring_def Let_def dest: in_set_takeD in_set_dropD)
  then have "split_on CHR ''_'' (substring r 2 11) = [substring r 2 11]"
    by (rule split_on_none)
  moreover have "generateInsertId distinctId t r
      = distinctId @ CHR ''_'' # (show_int t @ CHR ''_'' # substring r 2 11)"
    by (simp add: generateInsertId_def)
  ultimately show "split_on CHR ''_'' (generateInsertId distinctId t r)
      = [distinctId, show_int t, substring r 2 11]"
    using a by (simp add: split_on_first show_int_no_underscore)
next
  show "(generateInsertId distinctId t1 r1 = generateInsertId distinctId t2 r2)
        = (t1 = t2 \<and> substring r1 2 11 = substring r2 2 11)"
  proof
    assume "generateInsertId distinctId t1 r1 = generateInsertId distinctId t2 r2"
    then have "show_int t1 @ CHR ''_'' # substring r1 2 11
        = show_int t2 @ CHR ''_'' # substring r2 2 11"
      by (simp add: generateInsertId_def)
    then have "show_int t1 = show_int t2 \<and> substring r1 2 11 = substring r2 2 11"
      by (rule separated_eq[OF show_int_no_underscore show_int_no_underscore])
    then show "t1 = t2 \<and> substring r1 2 11 = substring r2 2 11"
      using show_int_inj by blast
  next
    assume "t1 = t2 \<and> substring r1 2 11 = substring r2 2 11"
    then show "generateInsertId distinctId t1 r1 = generateInsertId distinctId t2 r2"
      by (simp add: generateInsertId_def)
  qed
qed

lemma show_int_example: "show_int 1700000000000 = ''1700000000000''"
  by (simp add: show_int_def show_nat.simps digit_char_def char_of_def bit_0 bit_Suc)

theorem generateInsertId_shape_witness:
  "CHR ''_'' \<notin> set ''user123'' \<and> CHR ''_'' \<notin> set ''0.4fzyo82mvyr''
   \<and> split_on CHR ''_'' (generateInsertId ''user123'' 1700000000000 ''0.4fzyo82mvyr'')
       = [''user123'', ''1700000000000'', ''4fzyo82mv'']"
proof -
  have h: "CHR ''_'' \<notin> set ''user123'' \<and> CHR ''_'' \<notin> set ''0.4fzyo82mvyr''" by simp
  have s: "substring ''0.4fzyo82mvyr'' 2 11 = ''4fzyo82mv''" by (simp add: substring_def)
  show ?thesis
    using h generateInsertId_shape[of "''user123''" 1700000000000 "''0.4fzyo82mvyr''"]
      show_int_example s
    by simp
qed

text \<open>
  Claim C6 as stated fails. The distinct id \<open>u_1\<close> gives four segments, the first of them
  \<open>u\<close>; and two calls in the same millisecond whose random strings differ only after
  their eleventh character return the same insert id.
\<close>

theorem generateInsertId_counterexample:
  "length (split_on CHR ''_'' (generateInsertId ''u_1'' 1700000000000 ''0.4fzyo82mvyr'')) = 4
   \<and> hd (split_on CHR ''_'' (generateInsertId ''u_1'' 1700000000000 ''0.4fzyo82mvyr'')) = ''u''
   \<and> ''0.4fzyo82mvyr'' \<noteq> ''0.4fzyo82mvzz''
   \<and> generateInsertId ''user123'' 1700000000000 ''0.4fzyo82mvyr''
       = generateInsertId ''user123'' 1700000000000 ''0.4fzyo82mvzz''"
  by (simp add: generateInsertId_def substring_def show_int_example)

section \<open>processBatchWithRetry: the attempts of one batch\<close>

lemma retryLoop_fatal_first:
  assumes "processor batch s = (Inl err, s')" and "statusCode err \<noteq> Some 429"
    and "0 < retryAttempts"
  shows "retryLoop processor retryAttempts batch 0 None s trace
           = (Rethrown err, s', trace @ [Invoked batch])"
  using assms by (subst retryLoop.simps) simp

text \<open>
  A processor whose first call fails with an error that is not a rate limit is called
  once, nothing waits, and that error is the outcome, for any positive number of attempts.
\<close>

lemma processBatchWithRetry_fatal_first:
  assumes "0 < batchSize" and "items \<noteq> []" and "int (length items) \<le> batchSize"
    and "processor items s = (Inl err, s')" and "statusCode err \<noteq> Some 429"
    and "0 < retryAttempts"
  shows "processBatchWithRetry items batchSize processor retryAttempts s
           = Some (Inl err, s', [Invoked items])"
proof -
  have "splitLoop items batchSize 0 [] = Some [items]"
    using assms(1-3)
    by (subst splitLoop.simps, simp, subst splitLoop.simps) (simp add: slice_def)
  then show ?thesis
    using retryLoop_fatal_first[of processor items s err s' retryAttempts "[]"] assms(4-6)
    by (simp add: processBatchWithRetry_def)
qed

lemma splitLoop_single_batch:
  assumes "0 < batchSize" and "items \<noteq> []" and "int (length items) \<le> batchSize"
  shows "splitLoop items batchSize 0 [] = Some [items]"
  using assms
  by (subst splitLoop.simps, simp, subst splitLoop.simps) (simp add: slice_def)

lemma retryLoop_rate_limited:
  assumes "processor batch s0 = (Inl e1, s1)" and "statusCode e1 = Some 429"
    and "processor batch s1 = (Inl e2, s2)" and "statusCode e2 = Some 429"
    and "processor batch s2 = (Inl e3, s3)" and "statusCode e3 = Some 429"
  shows "retryLoop processor 3 batch 0 None s0 []
           = (Exhausted (Some e3), s3,
              [Invoked batch, Slept DEFAULTS_RETRY_DELAY_MS,
               Invoked batch, Slept (2 * DEFAULTS_RETRY_DELAY_MS),
               Invoked batch, Slept (4 * DEFAULTS_RETRY_DELAY_MS)])"
proof -
  have 3: "retryLoop processor 3 batch 3 (Some e3) s3
             [Invoked batch, Slept DEFAULTS_RETRY_DELAY_MS,
              Invoked batch, Slept (2 * DEFAULTS_RETRY_DELAY_MS),
              Invoked batch, Slept (4 * DEFAULTS_RETRY_DELAY_MS)]
           = (Exhausted (Some e3), s3,
              [Invoked batch, Slept DEFAULTS_RETRY_DELAY_MS,
               Invoked batch, Slept (2 * DEFAULTS_RETRY_DELAY_MS),
               Invoked batch, Slept (4 * DEFAULTS_RETRY_DELAY_MS)])"
    by (subst retryLoop.simps) simp
  have 2: "retryLoop processor 3 batch 2 (Some e2) s2
             [Invoked batch, Slept DEFAULTS_RETRY_DELAY_MS,
              Invoked batch, Slept (2 * DEFAULTS_RETRY_DELAY_MS)]
           = retryLoop processor 3 batch 3 (Some e3) s3
             [Invoked batch, Slept DEFAULTS_RETRY_DELAY_MS,
              Invoked batch, Slept (2 * DEFAULTS_RETRY_DELAY_MS),
              Invoked batch, Slept (4 * DEFAULTS_RETRY_DELAY_MS)]"
    using assms(5,6)
    by (subst retryLoop.simps) (simp add: mult.commute[of DEFAULTS_RETRY_DELAY_MS])
  have 1: "retryLoop processor 3 batch 1 (Some e1) s1
             [Invoked batch, Slept DEFAULTS_RETRY_DELAY_MS]
           = retryLoop processor 3 batch 2 (Some e2) s2
             [Invoked batch, Slept DEFAULTS_RETRY_DELAY_MS,
              Invoked batch, Slept (2 * DEFAULTS_RETRY_DELAY_MS)]"
    using assms(3,4)
    by (subst retryLoop.simps) (simp add: mult.commute[of DEFAULTS_RETRY_DELAY_MS])
  have 0: "retryLoop processor 3 batch 0 None s0 []
           = retryLoop processor 3 batch 1 (Some e1) s1
             [Invoked batch, Slept DEFAULTS_RETRY_DELAY_MS]"
    using assms(1,2) by (subst retryLoop.simps) simp
  show ?thesis by (simp only: 0 1 2 3)
qed

text \<open>
  Claim C5. The items are one batch. With 3 attempts and the base delay
  \<open>b = DEFAULTS_RETRY_DELAY_MS\<close>: when the first three calls of the processor fail with
  status 429, the processor is called exactly three times, the run waits \<open>b\<close> between
  the first and the second call and \<open>2b\<close> between the second and the third, and the
  error of the third call is the outcome (the handler waits after every rate-limit
  failure, so a wait of \<open>4b\<close> follows the third call before the error is thrown). When
  the first call fails with an error that is not a rate limit, the processor is called
  once, nothing waits, and that error is the outcome.
\<close>

theorem processBatchWithRetry_retry_sequence:
  assumes "0 < batchSize" and "items \<noteq> []" and "int (length items) \<le> batchSize"
  shows "(processor items s0 = (Inl e1, s1) \<and> statusCode e1 = Some 429
          \<and> processor items s1 = (Inl e2, s2) \<and> statusCode e2 = Some 429
          \<and> processor items s2 = (Inl e3, s3) \<and> statusCode e3 = Some 429 \<longrightarrow>
            processBatchWithRetry items batchSize processor 3 s0
              = Some (Inl e3, s3,
                  [Invoked items, Slept DEFAULTS_RETRY_DELAY_MS,
                   Invoked items, Slept (2 * DEFAULTS_RETRY_DELAY_MS),
                   Invoked items, Slept (4 * DEFAULTS_RETRY_DELAY_MS)]))
       \<and> (processor items s0 = (Inl err, s1) \<and> statusCode err \<noteq> Some 429 \<longrightarrow>
            processBatchWithRetry items batchSize processor 3 s0
              = Some (Inl err, s1, [Invoked items]))"
proof (intro conjI impI)
  assume a: "processor items s0 = (Inl e1, s1) \<and> statusCode e1 = Some 429
          \<and> processor items s1 = (Inl e2, s2) \<and> statusCode e2 = Some 429
          \<and> processor items s2 = (Inl e3, s3) \<and> statusCode e3 = Some 429"
  have "retryLoop processor 3 items 0 None s0 []
           = (Exhausted (Some e3), s3,
              [Invoked items, Slept DEFAULTS_RETRY_DELAY_MS,
               Invoked items, Slept (2 * DEFAULTS_RETRY_DELAY_MS),
               Invoked items, Slept (4 * DEFAULTS_RETRY_DELAY_MS)])"
    using a retryLoop_rate_limited[of processor items s0 e1 s1 e2 s2 e3 s3] by blast
  then show "processBatchWithRetry items batchSize processor 3 s0
              = Some (Inl e3, s3,
                  [Invoked items, Slept DEFAULTS_RETRY_DELAY_MS,
                   Invoked items, Slept (2 * DEFAULTS_RETRY_DELAY_MS),
                   Invoked items, Slept (4 * DEFAULTS_RETRY_DELAY_MS)])"
    by (simp add: processBatchWithRetry_def splitLoop_single_batch[OF assms])
next
  assume "processor items s0 = (Inl err, s1) \<and> statusCode err \<noteq> Some 429"
  then show "processBatchWithRetry items batchSize processor 3 s0
              = Some (Inl err, s1, [Invoked items])"
    using processBatchWithRetry_fatal_first[OF assms, of processor s0 err s1 3] by simp
qed

theorem processBatchWithRetry_retry_sequence_witness:
  "(0::int) < 1 \<and> [JStr ''e1''] \<noteq> [] \<and> int (length [JStr ''e1'']) \<le> 1
   \<and> statusCode (Thrown ''Error'' ''Too Many Requests'' (Some 429)) = Some 429
   \<and> processBatchWithRetry [JStr ''e1''] 1
        (\<lambda>batch s. (Inl (Thrown ''Error'' ''Too Many Requests'' (Some 429)), s)) 3 ()
      = Some (Inl (Thrown ''Error'' ''Too Many Requests'' (Some 429)), (),
          [Invoked [JStr ''e1''], Slept 1000, Invoked [JStr ''e1''], Slept 2000,
           Invoked [JStr ''e1''], Slept 4000])
   \<and> statusCode (Thrown ''Error'' ''Server Error'' (Some 500)) \<noteq> Some 429
   \<and> processBatchWithRetry [JStr ''e1''] 1
        (\<lambda>batch s. (Inl (Thrown ''Error'' ''Server Error'' (Some 500)), s)) 3 ()
      = Some (Inl (Thrown ''Error'' ''Server Error'' (Some 500)), (), [Invoked [JStr ''e1'']])"
proof -
  have 1: "(0::int) < 1" by simp
  have 2: "[JStr ''e1''] \<noteq> []" by simp
  have 3: "int (length [JStr ''e1'']) \<le> 1" by simp
  have 4: "statusCode (Thrown ''Error'' ''Too Many Requests'' (Some 429)) = Some 429" by simp
  have 5: "statusCode (Thrown ''Error'' ''Server Error'' (Some 500)) \<noteq> Some 429" by simp
  have 6: "processBatchWithRetry [JStr ''e1''] 1
        (\<lambda>batch s. (Inl (Thrown ''Error'' ''Too Many Requests'' (Some 429)), s)) 3 ()
      = Some (Inl (Thrown ''Error'' ''Too Many Requests'' (Some 429)), (),
          [Invoked [JStr ''e1''], Slept 1000, Invoked [JStr ''e1''], Slept 2000,
           Invoked [JStr ''e1''], Slept 4000])"
    using processBatchWithRetry_retry_sequence[OF 1 2 3,
        of "\<lambda>batch s. (Inl (Thrown ''Error'' ''Too Many Requests'' (Some 429)), s)"
           "()" "Thrown ''Error'' ''Too Many Requests'' (Some 429)" "()"
           "Thrown ''Error'' ''Too Many Requests'' (Some 429)" "()"
           "Thrown ''Error'' ''Too Many Requests'' (Some 429)" "()", THEN conjunct1]
    by (simp add: DEFAULTS_RETRY_DELAY_MS_def)
  have 7: "processBatchWithRetry [JStr ''e1''] 1
        (\<lambda>batch s. (Inl (Thrown ''Error'' ''Server Error'' (Some 500)), s)) 3 ()
      = Some (Inl (Thrown ''Error'' ''Server Error'' (Some 500)), (), [Invoked [JStr ''e1'']])"
    using processBatchWithRetry_retry_sequence[OF 1 2 3,
        of "\<lambda>batch s. (Inl (Thrown ''Error'' ''Server Error'' (Some 500)), s)"
           "()" _ _ _ _ _ _ "Thrown ''Error'' ''Server Error'' (Some 500)", THEN conjunct2]
    by simp
  show ?thesis by (rule conjI[OF 1 conjI[OF 2 conjI[OF 3 conjI[OF 4 conjI[OF 6 conjI[OF 5 7]]]]]])
qed

section \<open>mixpanelIngestionApiRequest: the response body\<close>

lemma mixpanelIngestionApiRequest_answer:
  assumes "getCredentials h = Inr credentials"
    and "getBaseUrl (region credentials) Ingestion = Inr baseUrl"
    and "helpers_request h (ingestionOptions baseUrl method endpoint body) (outside w)
           = (Inr response, out)"
  shows "fst (mixpanelIngestionApiRequest h method endpoint body w)
           = (case ingestionResponse response of
                Inl err \<Rightarrow> Inl (toNodeApiError err)
              | Inr result \<Rightarrow> Inr result)"
  using assms
  by (simp add: mixpanelIngestionApiRequest_def request_def Let_def split: sum.splits)

text \<open>
  Claim C7. When the request helper returns a response body: the body 1 or \<open>'1'\<close> gives
  the success result; the body 0 or \<open>'0'\<close> raises an error (the NodeOperationError of the
  \<open>try\<close> block, rethrown by its handler as a NodeApiError); a body that is an object is
  returned itself.
\<close>

theorem mixpanelIngestionApiRequest_body:
  assumes "getCredentials h = Inr credentials"
    and "getBaseUrl (region credentials) Ingestion = Inr baseUrl"
    and "helpers_request h (ingestionOptions baseUrl method endpoint body) (outside w)
           = (Inr response, out)"
  shows "(response = JNum (Num 1) \<or> response = JStr ''1'' \<longrightarrow>
            fst (mixpanelIngestionApiRequest h method endpoint body w)
              = Inr (JObj [(''success'', JBool True)]))
       \<and> (response = JNum (Num 0) \<or> response = JStr ''0'' \<longrightarrow>
            (\<exists>message name. fst (mixpanelIngestionApiRequest h method endpoint body w)
               = Inl (NodeApiError message name)))
       \<and> (\<forall>obj. response = JObj obj \<longrightarrow>
            fst (mixpanelIngestionApiRequest h method endpoint body w) = Inr response)"
  unfolding mixpanelIngestionApiRequest_answer[OF assms]
  by (auto simp: ingestionResponse_def toNodeApiError_def)

theorem mixpanelIngestionApiRequest_body_witness:
  "getCredentials
      \<lparr>getCredentials = Inr \<lparr>projectToken = ''tok'', projectSecret = ''sec'',
          serviceAccountUsername = None, serviceAccountSecret = None, region = ''eu''\<rparr>,
       helpers_request = (\<lambda>options out. (Inr (JStr ''0''), out)),
       Date_now = (\<lambda>out. (1700000000000, out)),
       Math_random_toString36 = (\<lambda>out. (''0.4fzyo82mvyr'', out)),
       JSON_parse = (\<lambda>s. Inl (Thrown ''SyntaxError'' ''Unexpected token'' None)),
       toBase64 = (\<lambda>s. s)\<rparr>
     = Inr \<lparr>projectToken = ''tok'', projectSecret = ''sec'',
          serviceAccountUsername = None, serviceAccountSecret = None, region = ''eu''\<rparr>
   \<and> getBaseUrl ''eu'' Ingestion = Inr ''https://api-eu.mixpanel.com''
   \<and> fst (mixpanelIngestionApiRequest
      \<lparr>getCredentials = Inr \<lparr>projectToken = ''tok'', projectSecret = ''sec'',
          serviceAccountUsername = None, serviceAccountSecret = None, region = ''eu''\<rparr>,
       helpers_request = (\<lambda>options out. (Inr (JStr ''0''), out)),
       Date_now = (\<lambda>out. (1700000000000, out)),
       Math_random_toString36 = (\<lambda>out. (''0.4fzyo82mvyr'', out)),
       JSON_parse = (\<lambda>s. Inl (Thrown ''SyntaxError'' ''Unexpected token'' None)),
       toBase64 = (\<lambda>s. s)\<rparr>
      ''POST'' ''/track'' (JArr []) \<lparr>sent = [], outside = ()\<rparr>)
     = Inl (NodeApiError
          ''Mixpanel API returned failure status. Check your data format and credentials.''
          ''NodeOperationError'')
   \<and> (\<exists>message name. fst (mixpanelIngestionApiRequest
      \<lparr>getCredentials = Inr \<lparr>projectToken = ''tok'', projectSecret = ''sec'',
          serviceAccountUsername = None, serviceAccountSecret = None, region = ''eu''\<rparr>,
       helpers_request = (\<lambda>options out. (Inr (JStr ''0''), out)),
       Date_now = (\<lambda>out. (1700000000000, out)),
       Math_random_toString36 = (\<lambda>out. (''0.4fzyo82mvyr'', out)),
       JSON_parse = (\<lambda>s. Inl (Thrown ''SyntaxError'' ''Unexpected token'' None)),
       toBase64 = (\<lambda>s. s)\<rparr>
      ''POST'' ''/track'' (JArr []) \<lparr>sent = [], outside = ()\<rparr>)
     = Inl (NodeApiError message name))"
proof -
  let ?c = "\<lparr>projectToken = ''tok'', projectSecret = ''sec'',
          serviceAccountUsername = None, serviceAccountSecret = None, region = ''eu''\<rparr>"
  let ?h = "\<lparr>getCredentials = Inr ?c,
       helpers_request = (\<lambda>options out. (Inr (JStr ''0''), out)),
       Date_now = (\<lambda>out. (1700000000000, out)),
       Math_random_toString36 = (\<lambda>out. (''0.4fzyo82mvyr'', out)),
       JSON_parse = (\<lambda>s. Inl (Thrown ''SyntaxError'' ''Unexpected token'' None)),
       toBase64 = (\<lambda>s. s)\<rparr> :: unit host"
  have 1: "getCredentials ?h = Inr ?c" by simp
  have 2: "getBaseUrl (region ?c) Ingestion = Inr ''https://api-eu.mixpanel.com''"
    by (simp add: getBaseUrl_def MIXPANEL_INGESTION_URLS_def)
  have 3: "helpers_request ?h
      (ingestionOptions ''https://api-eu.mixpanel.com'' ''POST'' ''/track'' (JArr []))
      (outside \<lparr>sent = [], outside = ()\<rparr>) = (Inr (JStr ''0''), ())"
    by simp
  have 4: "fst (mixpanelIngestionApiRequest ?h ''POST'' ''/track'' (JArr [])
        \<lparr>sent = [], outside = ()\<rparr>)
     = Inl (NodeApiError
          ''Mixpanel API returned failure status. Check your data format and credentials.''
          ''NodeOperationError'')"
    by (simp add: mixpanelIngestionApiRequest_answer[OF 1 2 3] ingestionResponse_def
        toNodeApiError_def)
  show ?thesis
    using 1 2 4 mixpanelIngestionApiRequest_body[OF 1 2 3]
    by simp
qed

section \<open>mixpanelExportApiRequest: the response body\<close>

lemma parseLines_all:
  "map parse lines = map Inr vs \<Longrightarrow> parseLines parse lines = Inr vs"
proof (induction lines arbitrary: vs)
  case Nil
  then show ?case by simp
next
  case (Cons line lines)
  then obtain v vs' where "vs = v # vs'" "parse line = Inr v" "map parse lines = map Inr vs'"
    by (cases vs) auto
  then show ?case using Cons.IH[of vs'] by simp
qed

lemma parseLines_fails:
  "line \<in> set lines \<Longrightarrow> parse line = Inl e \<Longrightarrow> \<exists>e'. parseLines parse lines = Inl e'"
proof (induction lines)
  case Nil
  then show ?case by simp
next
  case (Cons l lines)
  then show ?case by (auto split: sum.splits)
qed

lemma mixpanelExportApiRequest_answer:
  assumes "getCredentials h = Inr credentials"
    and "getBaseUrl (region credentials) Export = Inr baseUrl"
    and "helpers_request h (exportOptions h credentials baseUrl endpoint qs) (outside w)
           = (Inr response, out)"
  shows "fst (mixpanelExportApiRequest h endpoint qs w)
           = (case exportResponse (JSON_parse h) response of
                Inl err \<Rightarrow> Inl (toNodeApiError err)
              | Inr records \<Rightarrow> Inr records)"
  using assms
  by (simp add: mixpanelExportApiRequest_def request_def Let_def split: sum.splits)

lemma all_dropWhile: "(\<forall>c \<in> set (dropWhile P s). P c) = (\<forall>c \<in> set s. P c)"
  by (induction s) auto

lemma trim_Nil_iff: "(trim s = []) = (\<forall>c \<in> set s. is_space c)"
proof -
  have "(trim s = []) = (\<forall>c \<in> set (dropWhile is_space s). is_space c)"
    by (simp add: trim_def dropWhile_eq_Nil_conv)
  then show ?thesis by (simp only: all_dropWhile)
qed

lemma blank_line_iff:
  "truthy (JStr (trim line))
     = (\<not> set line \<subseteq> {CHR 0x09, CHR 0x0A, CHR 0x0B, CHR 0x0C,
                CHR 0x0D, CHR 0x20, CHR 0xA0})"
proof -
  have "truthy (JStr (trim line)) = (\<not> (\<forall>c \<in> set line. is_space c))"
    by (simp only: truthy.simps trim_Nil_iff)
  then show ?thesis unfolding is_space_def subset_eq .
qed

lemma split_on_joined:
  "ls \<noteq> [] \<Longrightarrow> \<forall>l \<in> set ls. sep \<notin> set l \<Longrightarrow>
   split_on sep (concat (map (\<lambda>l. l @ [sep]) (butlast ls)) @ last ls) = ls"
proof (induction ls)
  case Nil
  then show ?case by simp
next
  case (Cons l ls)
  show ?case
  proof (cases "ls = []")
    case True
    then show ?thesis using Cons.prems by (simp add: split_on_none)
  next
    case False
    then have "split_on sep (concat (map (\<lambda>l. l @ [sep]) (butlast ls)) @ last ls) = ls"
      using Cons by simp
    then show ?thesis using False Cons.prems by (simp add: split_on_first)
  qed
qed

lemma exportLines_joined:
  assumes "ls \<noteq> []" and "\<forall>l \<in> set ls. CHR 0x0A \<notin> set l"
  shows "exportLines (concat (map (\<lambda>l. l @ [CHR 0x0A]) (butlast ls)) @ last ls)
           = filter (\<lambda>l. \<not> set l \<subseteq> {CHR 0x09, CHR 0x0A, CHR 0x0B, CHR 0x0C, CHR 0x0D,
                                        CHR 0x20, CHR 0xA0}) ls"
proof -
  have "exportLines (concat (map (\<lambda>l. l @ [CHR 0x0A]) (butlast ls)) @ last ls)
          = filter (\<lambda>line. truthy (JStr (trim line))) ls"
    by (simp only: exportLines_def split_on_joined[OF assms])
  then show ?thesis by (simp only: blank_line_iff)
qed

lemma exportLines_example:
  "exportLines ''{\"a\":1}\<newline>{\"b\":2}\<newline>\<newline>'' = [''{\"a\":1}'', ''{\"b\":2}'']"
  by (simp add: exportLines_def trim_def is_space_def)

text \<open>
  Claim C8. When the request helper returns a response body. A string body is the
  lines \<open>ls\<close>, none with a newline in it, joined by newlines (every string is, in one
  way). The lines that are empty or made of white space only are left out, and the
  others are parsed one by one, in order: if they parse to the values \<open>vs\<close>, the result
  is \<open>vs\<close>; if one of them fails to parse, the call raises an error and returns no
  record. An array is returned as it is, and an object as the one element of a list.
  \<open>JSON.parse\<close> is the host's, so the example of the claim is stated for a host that
  parses its two lines to \<open>{a: 1}\<close> and \<open>{b: 2}\<close>.
\<close>

theorem mixpanelExportApiRequest_body:
  assumes "getCredentials h = Inr credentials"
    and "getBaseUrl (region credentials) Export = Inr baseUrl"
    and "helpers_request h (exportOptions h credentials baseUrl endpoint qs) (outside w)
           = (Inr response, out)"
  shows "(\<forall>ls vs. ls \<noteq> [] \<and> (\<forall>l \<in> set ls. CHR 0x0A \<notin> set l)
            \<and> response = JStr (concat (map (\<lambda>l. l @ [CHR 0x0A]) (butlast ls)) @ last ls)
            \<and> map (JSON_parse h) (filter (\<lambda>l. \<not> set l \<subseteq> {CHR 0x09, CHR 0x0A, CHR 0x0B, CHR 0x0C,
                CHR 0x0D, CHR 0x20, CHR 0xA0}) ls) = map Inr vs \<longrightarrow>
            fst (mixpanelExportApiRequest h endpoint qs w) = Inr vs)
       \<and> (\<forall>ls line e. ls \<noteq> [] \<and> (\<forall>l \<in> set ls. CHR 0x0A \<notin> set l)
            \<and> response = JStr (concat (map (\<lambda>l. l @ [CHR 0x0A]) (butlast ls)) @ last ls)
            \<and> line \<in> set ls \<and> \<not> set line \<subseteq> {CHR 0x09, CHR 0x0A, CHR 0x0B, CHR 0x0C,
                CHR 0x0D, CHR 0x20, CHR 0xA0}
            \<and> JSON_parse h line = Inl e \<longrightarrow>
            (\<exists>message name. fst (mixpanelExportApiRequest h endpoint qs w)
               = Inl (NodeApiError message name)))
       \<and> (response = JStr ''{\"a\":1}\<newline>{\"b\":2}\<newline>\<newline>''
            \<and> JSON_parse h ''{\"a\":1}'' = Inr (JObj [(''a'', JNum (Num 1))])
            \<and> JSON_parse h ''{\"b\":2}'' = Inr (JObj [(''b'', JNum (Num 2))]) \<longrightarrow>
            fst (mixpanelExportApiRequest h endpoint qs w)
              = Inr [JObj [(''a'', JNum (Num 1))], JObj [(''b'', JNum (Num 2))]])
       \<and> (\<forall>xs. response = JArr xs \<longrightarrow>
            fst (mixpanelExportApiRequest h endpoint qs w) = Inr xs)
       \<and> (\<forall>obj. response = JObj obj \<longrightarrow>
            fst (mixpanelExportApiRequest h endpoint qs w) = Inr [response])"
proof (intro conjI allI impI)
  fix ls vs
  assume a: "ls \<noteq> [] \<and> (\<forall>l \<in> set ls. CHR 0x0A \<notin> set l)
            \<and> response = JStr (concat (map (\<lambda>l. l @ [CHR 0x0A]) (butlast ls)) @ last ls)
            \<and> map (JSON_parse h) (filter (\<lambda>l. \<not> set l \<subseteq> {CHR 0x09, CHR 0x0A, CHR 0x0B, CHR 0x0C,
                CHR 0x0D, CHR 0x20, CHR 0xA0}) ls) = map Inr vs"
  then have "exportLines (concat (map (\<lambda>l. l @ [CHR 0x0A]) (butlast ls)) @ last ls)
      = filter (\<lambda>l. \<not> set l \<subseteq> {CHR 0x09, CHR 0x0A, CHR 0x0B, CHR 0x0C,
                CHR 0x0D, CHR 0x20, CHR 0xA0}) ls"
    using exportLines_joined[of ls] by blast
  then have "parseLines (JSON_parse h)
      (exportLines (concat (map (\<lambda>l. l @ [CHR 0x0A]) (butlast ls)) @ last ls)) = Inr vs"
    using a parseLines_all[of "JSON_parse h" _ vs] by simp
  then show "fst (mixpanelExportApiRequest h endpoint qs w) = Inr vs"
    unfolding mixpanelExportApiRequest_answer[OF assms] using a
    by (simp add: exportResponse_def)
next
  fix ls line e
  assume a: "ls \<noteq> [] \<and> (\<forall>l \<in> set ls. CHR 0x0A \<notin> set l)
            \<and> response = JStr (concat (map (\<lambda>l. l @ [CHR 0x0A]) (butlast ls)) @ last ls)
            \<and> line \<in> set ls \<and> \<not> set line \<subseteq> {CHR 0x09, CHR 0x0A, CHR 0x0B, CHR 0x0C,
                CHR 0x0D, CHR 0x20, CHR 0xA0}
            \<and> JSON_parse h line = Inl e"
  then have "exportLines (concat (map (\<lambda>l. l @ [CHR 0x0A]) (butlast ls)) @ last ls)
      = filter (\<lambda>l. \<not> set l \<subseteq> {CHR 0x09, CHR 0x0A, CHR 0x0B, CHR 0x0C,
                CHR 0x0D, CHR 0x20, CHR 0xA0}) ls"
    using exportLines_joined[of ls] by blast
  moreover have "line \<in> set (filter (\<lambda>l. \<not> set l \<subseteq> {CHR 0x09, CHR 0x0A, CHR 0x0B, CHR 0x0C,
                CHR 0x0D, CHR 0x20, CHR 0xA0}) ls)"
    using a by simp
  ultimately obtain e' where "parseLines (JSON_parse h)
      (exportLines (concat (map (\<lambda>l. l @ [CHR 0x0A]) (butlast ls)) @ last ls)) = Inl e'"
    using a parseLines_fails[of line _ "JSON_parse h" e] by metis
  then show "\<exists>message name. fst (mixpanelExportApiRequest h endpoint qs w)
               = Inl (NodeApiError message name)"
    unfolding mixpanelExportApiRequest_answer[OF assms] using a
    by (simp add: exportResponse_def toNodeApiError_def)
next
  assume "response = JStr ''{\"a\":1}\<newline>{\"b\":2}\<newline>\<newline>''
            \<and> JSON_parse h ''{\"a\":1}'' = Inr (JObj [(''a'', JNum (Num 1))])
            \<and> JSON_parse h ''{\"b\":2}'' = Inr (JObj [(''b'', JNum (Num 2))])"
  then show "fst (mixpanelExportApiRequest h endpoint qs w)
              = Inr [JObj [(''a'', JNum (Num 1))], JObj [(''b'', JNum (Num 2))]]"
    unfolding mixpanelExportApiRequest_answer[OF assms]
    by (simp add: exportResponse_def exportLines_example)
next
  fix xs
  assume "response = JArr xs"
  then show "fst (mixpanelExportApiRequest h endpoint qs w) = Inr xs"
    unfolding mixpanelExportApiRequest_answer[OF assms] by (simp add: exportResponse_def)
next
  fix obj
  assume "response = JObj obj"
  then show "fst (mixpanelExportApiRequest h endpoint qs w) = Inr [response]"
    unfolding mixpanelExportApiRequest_answer[OF assms] by (simp add: exportResponse_def)
qed

theorem mixpanelExportApiRequest_body_witness:
  "getCredentials
      (\<lparr>getCredentials = Inr \<lparr>projectToken = ''tok'', projectSecret = ''sec'',
          serviceAccountUsername = None, serviceAccountSecret = None, region = ''us''\<rparr>,
       helpers_request =
         (\<lambda>options out. (Inr (JStr ''{\"a\":1}\<newline>  \<newline>{\"b\":2}\<newline>''), out)),
       Date_now = (\<lambda>out. (1700000000000, out)),
       Math_random_toString36 = (\<lambda>out. (''0.4fzyo82mvyr'', out)),
       JSON_parse =
         (\<lambda>s. if s = ''{\"a\":1}'' then Inr (JObj [(''a'', JNum (Num 1))])
              else if s = ''{\"b\":2}'' then Inr (JObj [(''b'', JNum (Num 2))])
              else Inl (Thrown ''SyntaxError'' ''Unexpected token'' None)),
       toBase64 = (\<lambda>s. s)\<rparr> :: unit host)
     = Inr \<lparr>projectToken = ''tok'', projectSecret = ''sec'',
          serviceAccountUsername = None, serviceAccountSecret = None, region = ''us''\<rparr>
   \<and> getBaseUrl ''us'' Export = Inr ''https://data.mixpanel.com/api/2.0/export''
   \<and> [''{\"a\":1}'', ''  '', ''{\"b\":2}'', []] \<noteq> []
   \<and> concat (map (\<lambda>l. l @ [CHR 0x0A]) (butlast [''{\"a\":1}'', ''  '', ''{\"b\":2}'', []]))
        @ last [''{\"a\":1}'', ''  '', ''{\"b\":2}'', []]
       = ''{\"a\":1}\<newline>  \<newline>{\"b\":2}\<newline>''
   \<and> filter (\<lambda>l. \<not> set l \<subseteq> {CHR 0x09, CHR 0x0A, CHR 0x0B, CHR 0x0C,
                CHR 0x0D, CHR 0x20, CHR 0xA0}) [''{\"a\":1}'', ''  '', ''{\"b\":2}'', []]
       = [''{\"a\":1}'', ''{\"b\":2}'']
   \<and> fst (mixpanelExportApiRequest
      \<lparr>getCredentials = Inr \<lparr>projectToken = ''tok'', projectSecret = ''sec'',
          serviceAccountUsername = None, serviceAccountSecret = None, region = ''us''\<rparr>,
       helpers_request =
         (\<lambda>options out. (Inr (JStr ''{\"a\":1}\<newline>  \<newline>{\"b\":2}\<newline>''), out)),
       Date_now = (\<lambda>out. (1700000000000, out)),
       Math_random_toString36 = (\<lambda>out. (''0.4fzyo82mvyr'', out)),
       JSON_parse =
         (\<lambda>s. if s = ''{\"a\":1}'' then Inr (JObj [(''a'', JNum (Num 1))])
              else if s = ''{\"b\":2}'' then Inr (JObj [(''b'', JNum (Num 2))])
              else Inl (Thrown ''SyntaxError'' ''Unexpected token'' None)),
       toBase64 = (\<lambda>s. s)\<rparr>
      [] [] \<lparr>sent = [], outside = ()\<rparr>)
     = Inr [JObj [(''a'', JNum (Num 1))], JObj [(''b'', JNum (Num 2))]]"
proof -
  let ?c = "\<lparr>projectToken = ''tok'', projectSecret = ''sec'',
          serviceAccountUsername = None, serviceAccountSecret = None, region = ''us''\<rparr>"
  let ?h = "\<lparr>getCredentials = Inr \<lparr>projectToken = ''tok'', projectSecret = ''sec'',
          serviceAccountUsername = None, serviceAccountSecret = None, region = ''us''\<rparr>,
       helpers_request =
         (\<lambda>options out. (Inr (JStr ''{\"a\":1}\<newline>  \<newline>{\"b\":2}\<newline>''), out)),
       Date_now = (\<lambda>out. (1700000000000, out)),
       Math_random_toString36 = (\<lambda>out. (''0.4fzyo82mvyr'', out)),
       JSON_parse =
         (\<lambda>s. if s = ''{\"a\":1}'' then Inr (JObj [(''a'', JNum (Num 1))])
              else if s = ''{\"b\":2}'' then Inr (JObj [(''b'', JNum (Num 2))])
              else Inl (Thrown ''SyntaxError'' ''Unexpected token'' None)),
       toBase64 = (\<lambda>s. s)\<rparr> :: unit host"
  let ?ls = "[''{\"a\":1}'', ''  '', ''{\"b\":2}'', []]"
  let ?vs = "[JObj [(''a'', JNum (Num 1))], JObj [(''b'', JNum (Num 2))]]"
  have 1: "getCredentials ?h = Inr ?c" by simp
  have 2: "getBaseUrl (region ?c) Export = Inr ''https://data.mixpanel.com/api/2.0/export''"
    by (simp add: getBaseUrl_def MIXPANEL_EXPORT_URLS_def)
  have 3: "helpers_request ?h
      (exportOptions ?h ?c ''https://data.mixpanel.com/api/2.0/export'' [] [])
      (outside \<lparr>sent = [], outside = ()\<rparr>)
      = (Inr (JStr ''{\"a\":1}\<newline>  \<newline>{\"b\":2}\<newline>''), ())"
    by simp
  have 4: "?ls \<noteq> []" by simp
  have 5: "\<forall>l \<in> set ?ls. CHR 0x0A \<notin> set l" by simp
  have 6: "concat (map (\<lambda>l. l @ [CHR 0x0A]) (butlast ?ls)) @ last ?ls
       = ''{\"a\":1}\<newline>  \<newline>{\"b\":2}\<newline>''"
    by simp
  have 7: "filter (\<lambda>l. \<not> set l \<subseteq> {CHR 0x09, CHR 0x0A, CHR 0x0B, CHR 0x0C,
                CHR 0x0D, CHR 0x20, CHR 0xA0}) ?ls = [''{\"a\":1}'', ''{\"b\":2}'']"
    by simp
  have 8: "map (JSON_parse ?h) (filter (\<lambda>l. \<not> set l \<subseteq> {CHR 0x09, CHR 0x0A, CHR 0x0B, CHR 0x0C,
                CHR 0x0D, CHR 0x20, CHR 0xA0}) ?ls) = map Inr ?vs"
    unfolding 7 by simp
  have 9: "JStr ''{\"a\":1}\<newline>  \<newline>{\"b\":2}\<newline>''
      = JStr (concat (map (\<lambda>l. l @ [CHR 0x0A]) (butlast ?ls)) @ last ?ls)"
    unfolding 6 ..
  have 10: "fst (mixpanelExportApiRequest ?h [] [] \<lparr>sent = [], outside = ()\<rparr>) = Inr ?vs"
    using mixpanelExportApiRequest_body[OF 1 2 3, THEN conjunct1] 4 5 8 9 by blast
  have url: "getBaseUrl ''us'' Export = Inr ''https://data.mixpanel.com/api/2.0/export''"
    using 2 by simp
  show ?thesis by (rule conjI[OF 1 conjI[OF url conjI[OF 4 conjI[OF 6 conjI[OF 7 10]]]]])
qed

section \<open>mixpanelServiceAccountApiRequest: the credentials\<close>

lemma serviceAccountOptions_authorization:
  "map_of (req_headers (serviceAccountOptions h credentials baseUrl method endpoint body qs))
     ''Authorization''
   = Some (''Basic '' @ toBase64 h
       (template_field (serviceAccountUsername credentials) @ '':'' @
        template_field (serviceAccountSecret credentials)))"
  by (simp add: serviceAccountOptions_def Let_def)

lemma serviceAccountOptions_uri:
  "req_uri (serviceAccountOptions h credentials baseUrl method endpoint body qs)
     = baseUrl @ endpoint"
  by (simp add: serviceAccountOptions_def Let_def)

text \<open>
  Claim C9. With the service-account username or secret missing or empty, the call
  raises the NodeOperationError and hands no request to the request helper (the run's
  state is as before). With both present, a call that reaches the request helper (the
  region has a URL) hands it exactly one request, whose Authorization header is Basic
  with the base64 of \<open>username:secret\<close>.
\<close>

theorem mixpanelServiceAccountApiRequest_credentials:
  assumes "getCredentials h = Inr credentials"
  shows "(serviceAccountUsername credentials = None \<or> serviceAccountUsername credentials = Some []
          \<or> serviceAccountSecret credentials = None \<or> serviceAccountSecret credentials = Some []
          \<longrightarrow>
            mixpanelServiceAccountApiRequest h method endpoint body qs w
              = (Inl (NodeOperationError
                  ''Service account credentials are required for this operation. Please configure them in your Mixpanel credentials.''), w)
            \<and> sent (snd (mixpanelServiceAccountApiRequest h method endpoint body qs w)) = sent w)
       \<and> (\<forall>username secret baseUrl.
            serviceAccountUsername credentials = Some username \<and> username \<noteq> []
            \<and> serviceAccountSecret credentials = Some secret \<and> secret \<noteq> []
            \<and> getBaseUrl (region credentials) Query = Inr baseUrl \<longrightarrow>
            (\<exists>options.
               sent (snd (mixpanelServiceAccountApiRequest h method endpoint body qs w))
                 = sent w @ [options]
               \<and> req_uri options = baseUrl @ endpoint
               \<and> map_of (req_headers options) ''Authorization''
                   = Some (''Basic '' @ toBase64 h (username @ '':'' @ secret))))"
proof (intro conjI allI impI)
  assume "serviceAccountUsername credentials = None \<or> serviceAccountUsername credentials = Some []
          \<or> serviceAccountSecret credentials = None \<or> serviceAccountSecret credentials = Some []"
  then have "falsy_field (serviceAccountUsername credentials)
             \<or> falsy_field (serviceAccountSecret credentials)"
    by (auto simp: falsy_field_def)
  then show "mixpanelServiceAccountApiRequest h method endpoint body qs w
              = (Inl (NodeOperationError
                  ''Service account credentials are required for this operation. Please configure them in your Mixpanel credentials.''), w)"
    using assms by (simp add: mixpanelServiceAccountApiRequest_def)
  then show "sent (snd (mixpanelServiceAccountApiRequest h method endpoint body qs w)) = sent w"
    by simp
next
  fix username secret baseUrl
  assume a: "serviceAccountUsername credentials = Some username \<and> username \<noteq> []
            \<and> serviceAccountSecret credentials = Some secret \<and> secret \<noteq> []
            \<and> getBaseUrl (region credentials) Query = Inr baseUrl"
  let ?options = "serviceAccountOptions h credentials baseUrl method endpoint body qs"
  have "sent (snd (mixpanelServiceAccountApiRequest h method endpoint body qs w))
          = sent w @ [?options]"
    using assms a
    by (auto simp: mixpanelServiceAccountApiRequest_def falsy_field_def request_def Let_def
        split: sum.splits prod.splits)
  moreover have "req_uri ?options = baseUrl @ endpoint"
    by (rule serviceAccountOptions_uri)
  moreover have "map_of (req_headers ?options) ''Authorization''
                   = Some (''Basic '' @ toBase64 h (username @ '':'' @ secret))"
    using a by (simp add: serviceAccountOptions_authorization template_field_def)
  ultimately show "\<exists>options.
               sent (snd (mixpanelServiceAccountApiRequest h method endpoint body qs w))
                 = sent w @ [options]
               \<and> req_uri options = baseUrl @ endpoint
               \<and> map_of (req_headers options) ''Authorization''
                   = Some (''Basic '' @ toBase64 h (username @ '':'' @ secret))"
    by blast
qed

theorem mixpanelServiceAccountApiRequest_credentials_witness:
  "getCredentials
      \<lparr>getCredentials = Inr \<lparr>projectToken = ''tok'', projectSecret = ''sec'',
          serviceAccountUsername = Some ''svc'', serviceAccountSecret = Some ''pw'',
          region = ''in''\<rparr>,
       helpers_request = (\<lambda>options out. (Inr (JObj [(''ok'', JBool True)]), out)),
       Date_now = (\<lambda>out. (1700000000000, out)),
       Math_random_toString36 = (\<lambda>out. (''0.4fzyo82mvyr'', out)),
       JSON_parse = (\<lambda>s. Inl (Thrown ''SyntaxError'' ''Unexpected token'' None)),
       toBase64 = (\<lambda>s. ''b64('' @ s @ '')'')\<rparr>
     = Inr \<lparr>projectToken = ''tok'', projectSecret = ''sec'',
          serviceAccountUsername = Some ''svc'', serviceAccountSecret = Some ''pw'',
          region = ''in''\<rparr>
   \<and> getBaseUrl ''in'' Query = Inr ''https://in.mixpanel.com/api''
   \<and> (\<exists>options.
        sent (snd (mixpanelServiceAccountApiRequest
      \<lparr>getCredentials = Inr \<lparr>projectToken = ''tok'', projectSecret = ''sec'',
          serviceAccountUsername = Some ''svc'', serviceAccountSecret = Some ''pw'',
          region = ''in''\<rparr>,
       helpers_request = (\<lambda>options out. (Inr (JObj [(''ok'', JBool True)]), out)),
       Date_now = (\<lambda>out. (1700000000000, out)),
       Math_random_toString36 = (\<lambda>out. (''0.4fzyo82mvyr'', out)),
       JSON_parse = (\<lambda>s. Inl (Thrown ''SyntaxError'' ''Unexpected token'' None)),
       toBase64 = (\<lambda>s. ''b64('' @ s @ '')'')\<rparr>
          ''GET'' ''/2.0/lookup-tables'' [] [] \<lparr>sent = [], outside = ()\<rparr>)) = [options]
        \<and> req_uri options = ''https://in.mixpanel.com/api/2.0/lookup-tables''
        \<and> map_of (req_headers options) ''Authorization'' = Some ''Basic b64(svc:pw)'')"
proof -
  let ?c = "\<lparr>projectToken = ''tok'', projectSecret = ''sec'',
          serviceAccountUsername = Some ''svc'', serviceAccountSecret = Some ''pw'',
          region = ''in''\<rparr>"
  let ?h = "\<lparr>getCredentials = Inr \<lparr>projectToken = ''tok'', projectSecret = ''sec'',
          serviceAccountUsername = Some ''svc'', serviceAccountSecret = Some ''pw'',
          region = ''in''\<rparr>,
       helpers_request = (\<lambda>options out. (Inr (JObj [(''ok'', JBool True)]), out)),
       Date_now = (\<lambda>out. (1700000000000, out)),
       Math_random_toString36 = (\<lambda>out. (''0.4fzyo82mvyr'', out)),
       JSON_parse = (\<lambda>s. Inl (Thrown ''SyntaxError'' ''Unexpected token'' None)),
       toBase64 = (\<lambda>s. ''b64('' @ s @ '')'')\<rparr> :: unit host"
  have 1: "getCredentials ?h = Inr ?c" by simp
  have 2: "getBaseUrl (region ?c) Query = Inr ''https://in.mixpanel.com/api''"
    by (simp add: getBaseUrl_def MIXPANEL_QUERY_URLS_def)
  have 3: "serviceAccountUsername ?c = Some ''svc'' \<and> ''svc'' \<noteq> []
            \<and> serviceAccountSecret ?c = Some ''pw'' \<and> ''pw'' \<noteq> []
            \<and> getBaseUrl (region ?c) Query = Inr ''https://in.mixpanel.com/api''"
    using 2 by simp
  have "\<exists>options.
        sent (snd (mixpanelServiceAccountApiRequest ?h
          ''GET'' ''/2.0/lookup-tables'' [] [] \<lparr>sent = [], outside = ()\<rparr>))
          = sent \<lparr>sent = [], outside = ()\<rparr> @ [options]
        \<and> req_uri options = ''https://in.mixpanel.com/api'' @ ''/2.0/lookup-tables''
        \<and> map_of (req_headers options) ''Authorization''
            = Some (''Basic '' @ toBase64 ?h (''svc'' @ '':'' @ ''pw''))"
    using mixpanelServiceAccountApiRequest_credentials[OF 1, of "''GET''" "''/2.0/lookup-tables''"
        "[]" "[]" "\<lparr>sent = [], outside = ()\<rparr>"] 3
    by blast
  then show ?thesis using 1 2 by simp
qed

section \<open>A time of 0\<close>

lemma member_or_truthy:
  "truthy (obj_get payload a) \<or> truthy (obj_get payload b) \<Longrightarrow>
   \<exists>v. member_or (JObj payload) a b = Inr v \<and> truthy v"
  by (cases "truthy (obj_get payload a)") (simp_all add: member_or_def)

lemma buildImportEvent_time_zero:
  assumes "truthy (obj_get payload ''distinct_id'') \<or> truthy (obj_get payload ''distinctId'')"
    and "truthy (obj_get payload ''event'') \<or> truthy (obj_get payload ''eventName'')"
    and "obj_get payload ''time'' = JNum (Num 0)"
  shows "buildImportEvent h token (JObj payload) w
           = (Inl (Error ''Each imported event must have a time field''), w)"
proof -
  obtain distinctId where d: "member_or (JObj payload) ''distinct_id'' ''distinctId'' = Inr distinctId"
      "truthy distinctId"
    using member_or_truthy[OF assms(1)] by blast
  obtain eventName where e: "member_or (JObj payload) ''event'' ''eventName'' = Inr eventName"
      "truthy eventName"
    using member_or_truthy[OF assms(2)] by blast
  show ?thesis using d e assms(3) by (simp add: buildImportEvent_def)
qed

lemma buildImportEvents_stops:
  assumes "buildImportEvents h token before w = (Inr events, w1)"
    and "buildImportEvent h token eventData w1 = (Inl e, w2)"
  shows "buildImportEvents h token (before @ eventData # after) w = (Inl e, w2)"
  using assms
proof (induction before arbitrary: w events)
  case Nil
  then show ?case by simp
next
  case (Cons x before)
  then show ?case by (auto split: prod.splits sum.splits)
qed

text \<open>
  Claim C10. \<open>buildEventProperties\<close> with \<open>options.time = 0\<close> sets \<open>time\<close> to the clock in
  seconds. \<open>importEvents\<close>, given an array in which the events before one event build, and
  that event is an object with a distinct id and an event name and the time 0, raises
  the error of a missing time field.
\<close>

theorem time_zero_is_absent:
  assumes "parseJsonInput h eventsInput = Inr (JArr (before @ JObj payload # after))"
    and "buildImportEvents h token before w = (Inr events, w1)"
    and "truthy (obj_get payload ''distinct_id'') \<or> truthy (obj_get payload ''distinctId'')"
    and "truthy (obj_get payload ''event'') \<or> truthy (obj_get payload ''eventName'')"
    and "obj_get payload ''time'' = JNum (Num 0)"
  shows "obj_get (buildEventProperties token distinctId insertId additionalProperties
            \<lparr>time = Some (Num 0), ip = address\<rparr> now) ''time'' = JNum (Num (now div 1000))
       \<and> importEvents h token eventsInput w
           = Some (Inl (Error ''Each imported event must have a time field''), w1)"
proof
  show "obj_get (buildEventProperties token distinctId insertId additionalProperties
            \<lparr>time = Some (Num 0), ip = address\<rparr> now) ''time'' = JNum (Num (now div 1000))"
    by (simp add: buildEventProperties_time)
next
  have "buildImportEvents h token (before @ JObj payload # after) w
          = (Inl (Error ''Each imported event must have a time field''), w1)"
    by (rule buildImportEvents_stops[OF assms(2) buildImportEvent_time_zero[OF assms(3-5)]])
  then show "importEvents h token eventsInput w
           = Some (Inl (Error ''Each imported event must have a time field''), w1)"
    using assms(1) by (simp add: importEvents_def)
qed

theorem time_zero_is_absent_witness:
  "parseJsonInput
      (\<lparr>getCredentials = Inr \<lparr>projectToken = ''tok'', projectSecret = ''sec'',
          serviceAccountUsername = None, serviceAccountSecret = None, region = ''us''\<rparr>,
       helpers_request = (\<lambda>options out. (Inr (JNum (Num 1)), out)),
       Date_now = (\<lambda>out. (1700000000000, out)),
       Math_random_toString36 = (\<lambda>out. (''0.4fzyo82mvyr'', out)),
       JSON_parse = (\<lambda>s. Inl (Thrown ''SyntaxError'' ''Unexpected token'' None)),
       toBase64 = (\<lambda>s. s)\<rparr> :: unit host)
      (JArr [JObj [(''distinct_id'', JStr ''u1''), (''event'', JStr ''Signup''),
            (''time'', JNum (Num 1700000000000)), (''$insert_id'', JStr ''i1'')],
             JObj [(''distinct_id'', JStr ''u2''), (''event'', JStr ''Purchase''),
                 (''time'', JNum (Num 0))]])
     = Inr (JArr ([JObj [(''distinct_id'', JStr ''u1''), (''event'', JStr ''Signup''),
            (''time'', JNum (Num 1700000000000)), (''$insert_id'', JStr ''i1'')]]
          @ JObj [(''distinct_id'', JStr ''u2''), (''event'', JStr ''Purchase''),
                 (''time'', JNum (Num 0))] # []))
   \<and> obj_get [(''distinct_id'', JStr ''u2''), (''event'', JStr ''Purchase''),
                 (''time'', JNum (Num 0))] ''time'' = JNum (Num 0)
   \<and> importEvents
      \<lparr>getCredentials = Inr \<lparr>projectToken = ''tok'', projectSecret = ''sec'',
          serviceAccountUsername = None, serviceAccountSecret = None, region = ''us''\<rparr>,
       helpers_request = (\<lambda>options out. (Inr (JNum (Num 1)), out)),
       Date_now = (\<lambda>out. (1700000000000, out)),
       Math_random_toString36 = (\<lambda>out. (''0.4fzyo82mvyr'', out)),
       JSON_parse = (\<lambda>s. Inl (Thrown ''SyntaxError'' ''Unexpected token'' None)),
       toBase64 = (\<lambda>s. s)\<rparr>
      ''tok''
      (JArr [JObj [(''distinct_id'', JStr ''u1''), (''event'', JStr ''Signup''),
            (''time'', JNum (Num 1700000000000)), (''$insert_id'', JStr ''i1'')],
             JObj [(''distinct_id'', JStr ''u2''), (''event'', JStr ''Purchase''),
                 (''time'', JNum (Num 0))]])
      \<lparr>sent = [], outside = ()\<rparr>
     = Some (Inl (Error ''Each imported event must have a time field''),
             \<lparr>sent = [], outside = ()\<rparr>)"
proof -
  let ?h = "\<lparr>getCredentials = Inr \<lparr>projectToken = ''tok'', projectSecret = ''sec'',
          serviceAccountUsername = None, serviceAccountSecret = None, region = ''us''\<rparr>,
       helpers_request = (\<lambda>options out. (Inr (JNum (Num 1)), out)),
       Date_now = (\<lambda>out. (1700000000000, out)),
       Math_random_toString36 = (\<lambda>out. (''0.4fzyo82mvyr'', out)),
       JSON_parse = (\<lambda>s. Inl (Thrown ''SyntaxError'' ''Unexpected token'' None)),
       toBase64 = (\<lambda>s. s)\<rparr> :: unit host"
  let ?good = "JObj [(''distinct_id'', JStr ''u1''), (''event'', JStr ''Signup''),
            (''time'', JNum (Num 1700000000000)), (''$insert_id'', JStr ''i1'')]"
  let ?bad = "[(''distinct_id'', JStr ''u2''), (''event'', JStr ''Purchase''),
                 (''time'', JNum (Num 0))]"
  let ?w = "\<lparr>sent = [], outside = ()\<rparr>"
  have 1: "parseJsonInput ?h (JArr [?good, JObj ?bad]) = Inr (JArr ([?good] @ JObj ?bad # []))"
    by (simp add: parseJsonInput_def)
  have 2: "buildImportEvents ?h ''tok'' [?good] ?w
      = (Inr [JObj [(''event'', JStr ''Signup''),
                 (''properties'', JObj [(''token'', JStr ''tok''), (''distinct_id'', JStr ''u1''),
                    (''$insert_id'', JStr ''i1''), (''time'', JNum (Num 1700000000))])]], ?w)"
    by (simp add: buildImportEvent_def member_or_def obj_get_def importInsertId_def
        importProperties_def importTime_def toSeconds_def ts_number_def spread_def
        cleanObject_def obj_set_def)
  have 3: "truthy (obj_get ?bad ''distinct_id'') \<or> truthy (obj_get ?bad ''distinctId'')"
    by (simp add: obj_get_def)
  have 4: "truthy (obj_get ?bad ''event'') \<or> truthy (obj_get ?bad ''eventName'')"
    by (simp add: obj_get_def)
  have 5: "obj_get ?bad ''time'' = JNum (Num 0)"
    by (simp add: obj_get_def)
  have 6: "importEvents ?h ''tok'' (JArr [?good, JObj ?bad]) ?w
      = Some (Inl (Error ''Each imported event must have a time field''), ?w)"
    by (rule time_zero_is_absent[OF 1 2 3 4 5, THEN conjunct2])
  show ?thesis by (rule conjI[OF 1 conjI[OF 5 6]])
qed

end
